theory Spec2Isabelle
  imports Complex_Main
begin

section \<open>JavaScript strings and objects\<close>

text \<open>
  A JavaScript string is modelled as a \<^typ>\<open>string\<close>: a list of code units, here the
  code units below 256 (ASCII and Latin-1). Numbers are rationals, times are integers
  (milliseconds since the epoch, as \<^verbatim>\<open>Date.now()\<close> gives them).
\<close>

definition is_upper :: "char \<Rightarrow> bool" where
  "is_upper c = ((65::nat) \<le> of_char c \<and> of_char c \<le> (90::nat))"

definition is_lower :: "char \<Rightarrow> bool" where
  "is_lower c = ((97::nat) \<le> of_char c \<and> of_char c \<le> (122::nat))"

definition is_alpha :: "char \<Rightarrow> bool" where
  "is_alpha c = (is_upper c \<or> is_lower c)"

text \<open>The class \<^verbatim>\<open>\s\<close> of a regular expression, which is also what \<^verbatim>\<open>trim\<close> strips:
  tab, line feed, vertical tab, form feed, carriage return, space, no-break space.\<close>

definition is_space :: "char \<Rightarrow> bool" where
  "is_space c = ((of_char c :: nat) \<in> {9, 10, 11, 12, 13, 32, 160})"

text \<open>\<^verbatim>\<open>String.prototype.toLowerCase\<close> on one code unit: the ASCII capitals and the
  Latin-1 capitals (all of 0xC0..0xDE but the multiplication sign 0xD7) move up by 32.\<close>

definition lower_char :: "char \<Rightarrow> char" where
  "lower_char c =
     (let n = (of_char c :: nat)
      in if (65 \<le> n \<and> n \<le> 90) \<or> (192 \<le> n \<and> n \<le> 222 \<and> n \<noteq> 215)
         then char_of (n + 32) else c)"

definition toLowerCase :: "string \<Rightarrow> string" where
  "toLowerCase s = map lower_char s"

primrec starts_with :: "string \<Rightarrow> string \<Rightarrow> bool" where
  "starts_with s [] = True"
| "starts_with s (p # ps) = (case s of [] \<Rightarrow> False | c # cs \<Rightarrow> c = p \<and> starts_with cs ps)"

text \<open>\<^verbatim>\<open>s.includes(sub)\<close>: \<open>sub\<close> occurs in \<open>s\<close> as a substring.\<close>

primrec js_includes :: "string \<Rightarrow> string \<Rightarrow> bool" where
  "js_includes [] sub = (sub = [])"
| "js_includes (c # cs) sub = (starts_with (c # cs) sub \<or> js_includes cs sub)"

definition trim :: "string \<Rightarrow> string" where
  "trim s = rev (dropWhile is_space (rev (dropWhile is_space s)))"

text \<open>\<^verbatim>\<open>s.replace(pat, rep)\<close> with a string pattern: the first occurrence only.\<close>

primrec replace_first :: "string \<Rightarrow> string \<Rightarrow> string \<Rightarrow> string" where
  "replace_first pat rep [] = (if pat = [] then rep else [])"
| "replace_first pat rep (c # cs) =
     (if starts_with (c # cs) pat then rep @ drop (length pat) (c # cs)
      else c # replace_first pat rep cs)"

text \<open>\<^verbatim>\<open>s.split(/[,\s]+/)\<close>: the pieces between maximal runs of commas and white space;
  a separator at either end leaves an empty piece there. The second argument is the piece
  being read (reversed), the third says whether the last code unit was a separator.\<close>

fun split_aux :: "string \<Rightarrow> string \<Rightarrow> bool \<Rightarrow> string list" where
  "split_aux [] cur insep = [rev cur]"
| "split_aux (c # cs) cur insep =
     (if c = CHR '','' \<or> is_space c
      then (if insep then split_aux cs cur True else rev cur # split_aux cs [] True)
      else split_aux cs (c # cur) False)"

definition split_comma_space :: "string \<Rightarrow> string list" where
  "split_comma_space s = split_aux s [] False"

text \<open>
  Reading \<^verbatim>\<open>obj[key]\<close> on an object literal finds the literal's own properties first and
  then those of \<^verbatim>\<open>Object.prototype\<close>, whose values are functions or objects (all truthy).
\<close>

definition object_prototype_keys :: "string list" where
  "object_prototype_keys =
     [''constructor'', ''hasOwnProperty'', ''isPrototypeOf'', ''propertyIsEnumerable'',
      ''toLocaleString'', ''toString'', ''valueOf'', ''__proto__'',
      ''__defineGetter__'', ''__defineSetter__'', ''__lookupGetter__'', ''__lookupSetter__'']"

datatype 'a property = Own 'a | Inherited string | Undefined

definition js_get :: "(string \<times> 'a) list \<Rightarrow> string \<Rightarrow> 'a property" where
  "js_get obj key =
     (case map_of obj key of
        Some v \<Rightarrow> Own v
      | None \<Rightarrow> if key \<in> set object_prototype_keys then Inherited key else Undefined)"

datatype exn = JsError string

section \<open>Results of the two resolvers\<close>

record coords =
  lat :: "rat option"
  lng :: "rat option"
  formatted_address :: string
  service :: string

record geocode_result =
  original_text :: string
  extracted_location :: string
  coordinates :: coords
  success :: bool
  mock :: bool

record verification_result =
  status :: string
  authenticity_score :: "rat option"
  manipulation_detected :: bool
  context_match :: bool
  analysis_summary :: string
  confidence_level :: string
  verification_method :: string
  timestamp :: int

text \<open>What a cache row or a response body holds. \<open>JNull\<close> is also JavaScript's
  \<^verbatim>\<open>null\<close>, the value a cache miss returns.\<close>

datatype jsvalue =
    JNull
  | JBool bool
  | JNum rat
  | JStr string
  | JGeocode geocode_result
  | JVerification verification_result

fun truthy :: "jsvalue \<Rightarrow> bool" where
  "truthy JNull = False"
| "truthy (JBool b) = b"
| "truthy (JNum n) = (n \<noteq> 0)"
| "truthy (JStr s) = (s \<noteq> [])"
| "truthy (JGeocode r) = True"
| "truthy (JVerification r) = True"

section \<open>The cache (utils/cache.js)\<close>

text \<open>
  The table \<^verbatim>\<open>cache\<close> has the primary key \<^verbatim>\<open>key\<close> and the columns \<^verbatim>\<open>value\<close> and
  \<^verbatim>\<open>expires_at\<close>: a map from keys to rows. Each call to the store either runs (\<open>Up\<close>),
  resolves with an \<^verbatim>\<open>error\<close> field and does nothing (\<open>Erring\<close>), or throws
  (\<open>Unreachable\<close>).
\<close>

type_synonym cache_table = "string \<rightharpoonup> (jsvalue \<times> int)"

datatype store_cond = Up | Erring string | Unreachable string

text \<open>\<^verbatim>\<open>.select('value, expires_at').eq('key', key).single()\<close>: the pair of \<^verbatim>\<open>data\<close> and
  \<^verbatim>\<open>error\<close>; \<^verbatim>\<open>single\<close> reports an error when no row matches.\<close>

definition select_single ::
  "store_cond \<Rightarrow> cache_table \<Rightarrow> string \<Rightarrow> exn + ((jsvalue \<times> int) option \<times> string option)" where
  "select_single cond rows key =
     (case cond of
        Unreachable m \<Rightarrow> Inl (JsError m)
      | Erring m \<Rightarrow> Inr (None, Some m)
      | Up \<Rightarrow> (case rows key of
                 None \<Rightarrow> Inr (None, Some ''no rows returned'')
               | Some r \<Rightarrow> Inr (Some r, None)))"

definition delete_eq ::
  "store_cond \<Rightarrow> cache_table \<Rightarrow> string \<Rightarrow> exn + (string option \<times> cache_table)" where
  "delete_eq cond rows key =
     (case cond of
        Unreachable m \<Rightarrow> Inl (JsError m)
      | Erring m \<Rightarrow> Inr (Some m, rows)
      | Up \<Rightarrow> Inr (None, rows(key := None)))"

definition upsert ::
  "store_cond \<Rightarrow> cache_table \<Rightarrow> string \<Rightarrow> jsvalue \<Rightarrow> int \<Rightarrow> exn + (string option \<times> cache_table)" where
  "upsert cond rows key v expires_at =
     (case cond of
        Unreachable m \<Rightarrow> Inl (JsError m)
      | Erring m \<Rightarrow> Inr (Some m, rows)
      | Up \<Rightarrow> Inr (None, rows(key \<mapsto> (v, expires_at))))"

text \<open>The body of \<^verbatim>\<open>getFromCache\<close>'s \<^verbatim>\<open>try\<close> block, at the time \<open>now\<close>; \<open>sel\<close> and
  \<open>del\<close> are the conditions of its two calls to the store.\<close>

definition getFromCache_try ::
  "store_cond \<Rightarrow> store_cond \<Rightarrow> int \<Rightarrow> cache_table \<Rightarrow> string \<Rightarrow> exn + (jsvalue \<times> cache_table)" where
  "getFromCache_try sel del now rows key =
     (case select_single sel rows key of
        Inl e \<Rightarrow> Inl e
      | Inr (data, error) \<Rightarrow>
          if error \<noteq> None \<or> data = None then Inr (JNull, rows)
          else (case data of
                  None \<Rightarrow> Inr (JNull, rows)
                | Some (v, expires_at) \<Rightarrow>
                    if expires_at < now then
                      (case delete_eq del rows key of
                         Inl e \<Rightarrow> Inl e
                       | Inr (err, rows') \<Rightarrow> Inr (JNull, rows'))
                    else Inr (v, rows)))"

text \<open>\<^verbatim>\<open>getFromCache\<close>: the \<^verbatim>\<open>catch\<close> block logs a warning and returns \<^verbatim>\<open>null\<close>.\<close>

definition getFromCache ::
  "store_cond \<Rightarrow> store_cond \<Rightarrow> int \<Rightarrow> cache_table \<Rightarrow> string \<Rightarrow> exn + (jsvalue \<times> cache_table)" where
  "getFromCache sel del now rows key =
     (case getFromCache_try sel del now rows key of
        Inl e \<Rightarrow> Inr (JNull, rows)
      | Inr r \<Rightarrow> Inr r)"

text \<open>A \<^verbatim>\<open>Date\<close> holds at most 8.64e15 milliseconds either side of the epoch; beyond that
  it is invalid and \<^verbatim>\<open>toISOString\<close> throws a RangeError.\<close>

definition valid_time :: "int \<Rightarrow> bool" where
  "valid_time t = (- 8640000000000000 \<le> t \<and> t \<le> 8640000000000000)"

definition setCache_try ::
  "store_cond \<Rightarrow> int \<Rightarrow> cache_table \<Rightarrow> string \<Rightarrow> jsvalue \<Rightarrow> int \<Rightarrow> exn + cache_table" where
  "setCache_try ups now rows key v ttlSeconds =
     (let expiresAt = now + ttlSeconds * 1000
      in if \<not> valid_time expiresAt then Inl (JsError ''Invalid time value'')
         else (case upsert ups rows key v expiresAt of
                 Inl e \<Rightarrow> Inl e
               | Inr (error, rows') \<Rightarrow> Inr rows'))"

definition setCache ::
  "store_cond \<Rightarrow> int \<Rightarrow> cache_table \<Rightarrow> string \<Rightarrow> jsvalue \<Rightarrow> int \<Rightarrow> exn + cache_table" where
  "setCache ups now rows key v ttlSeconds =
     (case setCache_try ups now rows key v ttlSeconds of
        Inl e \<Rightarrow> Inr rows
      | Inr rows' \<Rightarrow> Inr rows')"

section \<open>Geocoding (routes/geocoding.js)\<close>

subsection \<open>The cache key\<close>

text \<open>\<^verbatim>\<open>Buffer.from(s)\<close> encodes the string in UTF-8: one byte for a code unit below 128,
  two bytes for the others modelled here.\<close>

definition utf8 :: "string \<Rightarrow> nat list" where
  "utf8 s = concat (map (\<lambda>c. let n = (of_char c :: nat)
                              in if n < 128 then [n] else [192 + n div 64, 128 + n mod 64]) s)"

definition base64_alphabet :: string where
  "base64_alphabet = ''ABCDEFGHIJKLMNOPQRSTUVWXYZabcdefghijklmnopqrstuvwxyz0123456789+/''"

definition base64_digit :: "nat \<Rightarrow> char" where
  "base64_digit n = base64_alphabet ! (n mod 64)"

fun base64_bytes :: "nat list \<Rightarrow> string" where
  "base64_bytes [] = []"
| "base64_bytes [a] =
     [base64_digit (a div 4), base64_digit ((a mod 4) * 16), CHR ''='', CHR ''='']"
| "base64_bytes [a, b] =
     [base64_digit (a div 4), base64_digit ((a mod 4) * 16 + b div 16),
      base64_digit ((b mod 16) * 4), CHR ''='']"
| "base64_bytes (a # b # c # r) =
     [base64_digit (a div 4), base64_digit ((a mod 4) * 16 + b div 16),
      base64_digit ((b mod 16) * 4 + c div 64), base64_digit (c mod 64)] @ base64_bytes r"

definition base64 :: "string \<Rightarrow> string" where
  "base64 s = base64_bytes (utf8 s)"

definition geocoding_key :: "string \<Rightarrow> string" where
  "geocoding_key inputText = ''geocoding_'' @ base64 inputText"

subsection \<open>The fallback: \<^verbatim>\<open>mockLocationExtraction\<close>\<close>

text \<open>
  The first three patterns are \<^verbatim>\<open>/in\s+([A-Z][a-zA-Z\s,]+)/i\<close> and the same with
  \<^verbatim>\<open>at\<close> and \<^verbatim>\<open>near\<close>. Under the flag \<^verbatim>\<open>i\<close> the keyword matches in either case and
  \<^verbatim>\<open>[A-Z]\<close> is any ASCII letter. \<open>keyword_match_here\<close> is the match that starts at the
  head of the string, giving the captured group: the keyword, all the white space that
  follows (there must be some, and the next code unit must be a letter: giving white
  space back never helps, since the letter would then face a white space), the letter, and
  the longest run of letters, white space and commas after it, which must not be empty.
\<close>

definition is_class :: "char \<Rightarrow> bool" where
  "is_class c = (is_alpha c \<or> is_space c \<or> c = CHR '','')"

definition keyword_match_here :: "string \<Rightarrow> string \<Rightarrow> string option" where
  "keyword_match_here kw s =
     (if length kw \<le> length s \<and> toLowerCase (take (length kw) s) = kw
      then (let r = drop (length kw) s
            in if takeWhile is_space r = [] then None
               else (case dropWhile is_space r of
                       [] \<Rightarrow> None
                     | c # cs \<Rightarrow>
                         if is_alpha c
                         then (let body = takeWhile is_class cs
                               in if body = [] then None else Some (c # body))
                         else None))
      else None)"

text \<open>\<^verbatim>\<open>text.match(pattern)\<close> takes the leftmost position where the pattern matches.\<close>

primrec keyword_search :: "string \<Rightarrow> string \<Rightarrow> string option" where
  "keyword_search kw [] = keyword_match_here kw []"
| "keyword_search kw (c # cs) =
     (case keyword_match_here kw (c # cs) of
        Some m \<Rightarrow> Some m
      | None \<Rightarrow> keyword_search kw cs)"

text \<open>
  The fourth pattern is \<^verbatim>\<open>/([A-Z][a-zA-Z]+,?\s*[A-Z]{2,})/\<close>, case-sensitive.
  \<open>abbrev_tail\<close> matches \<^verbatim>\<open>,?\s*[A-Z]{2,}\<close> at the head of a string. The run of letters
  \<^verbatim>\<open>[a-zA-Z]+\<close> is greedy and gives letters back one at a time until the rest matches:
  \<open>try_letters k r\<close> tries the runs of length \<open>k\<close>, \<open>k - 1\<close>, ..., 1.
\<close>

definition abbrev_tail :: "string \<Rightarrow> string option" where
  "abbrev_tail t =
     (let comma = (case t of [] \<Rightarrow> [] | c # cs \<Rightarrow> if c = CHR '','' then [c] else []);
          t1 = drop (length comma) t;
          sp = takeWhile is_space t1;
          ups = takeWhile is_upper (dropWhile is_space t1)
      in if 2 \<le> length ups then Some (comma @ sp @ ups) else None)"

primrec try_letters :: "nat \<Rightarrow> string \<Rightarrow> string option" where
  "try_letters 0 r = None"
| "try_letters (Suc k) r =
     (case abbrev_tail (drop (Suc k) r) of
        Some m \<Rightarrow> Some (take (Suc k) r @ m)
      | None \<Rightarrow> try_letters k r)"

definition capital_match_here :: "string \<Rightarrow> string option" where
  "capital_match_here s =
     (case s of
        [] \<Rightarrow> None
      | c # r \<Rightarrow>
          if is_upper c
          then map_option ((#) c) (try_letters (length (takeWhile is_alpha r)) r)
          else None)"

primrec capital_search :: "string \<Rightarrow> string option" where
  "capital_search [] = None"
| "capital_search (c # cs) =
     (case capital_match_here (c # cs) of
        Some m \<Rightarrow> Some m
      | None \<Rightarrow> capital_search cs)"

text \<open>The loop over \<^verbatim>\<open>locationPatterns\<close>: the first pattern that matches gives the
  location, trimmed; without a match the default stays.\<close>

definition extract_by_patterns :: "string \<Rightarrow> string" where
  "extract_by_patterns text =
     (case keyword_search ''in'' text of
        Some m \<Rightarrow> trim m
      | None \<Rightarrow>
     (case keyword_search ''at'' text of
        Some m \<Rightarrow> trim m
      | None \<Rightarrow>
     (case keyword_search ''near'' text of
        Some m \<Rightarrow> trim m
      | None \<Rightarrow>
     (case capital_search text of
        Some m \<Rightarrow> trim m
      | None \<Rightarrow> ''New York, NY''))))"

definition mockCoordinates :: "(string \<times> rat \<times> rat) list" where
  "mockCoordinates =
     [(''Manhattan, NYC'', 407831 / 10000, - (739712 / 10000)),
      (''Brooklyn, NY'', 406782 / 10000, - (739442 / 10000)),
      (''Queens, NY'', 407282 / 10000, - (737949 / 10000)),
      (''Bronx, NY'', 408448 / 10000, - (738648 / 10000)),
      (''New York, NY'', 407128 / 10000, - (740060 / 10000)),
      (''Los Angeles, CA'', 340522 / 10000, - (1182437 / 10000)),
      (''Chicago, IL'', 418781 / 10000, - (876298 / 10000))]"

text \<open>\<^verbatim>\<open>mockCoordinates[extractedLocation] || mockCoordinates['New York, NY']\<close>, then spread
  into the result: an inherited property is truthy and has no \<^verbatim>\<open>lat\<close> or \<^verbatim>\<open>lng\<close> to
  spread.\<close>

definition mock_lat_lng :: "string \<Rightarrow> rat option \<times> rat option" where
  "mock_lat_lng extractedLocation =
     (case js_get mockCoordinates extractedLocation of
        Own (la, lo) \<Rightarrow> (Some la, Some lo)
      | Inherited k \<Rightarrow> (None, None)
      | Undefined \<Rightarrow> (Some (407128 / 10000), Some (- (740060 / 10000))))"

definition mockLocationExtraction :: "string \<Rightarrow> geocode_result" where
  "mockLocationExtraction text =
     (let extractedLocation = extract_by_patterns text;
          (la, lo) = mock_lat_lng extractedLocation
      in \<lparr> original_text = text,
           extracted_location = extractedLocation,
           coordinates = \<lparr> lat = la, lng = lo,
                           formatted_address = extractedLocation,
                           service = ''mock'' \<rparr>,
           success = True,
           mock = True \<rparr>)"

subsection \<open>The providers\<close>

text \<open>
  What lies outside the process is given per request: which keys are configured, what the
  Gemini request gives (\<open>Inl\<close> when \<^verbatim>\<open>axios.post\<close> throws, otherwise the generated text,
  if any), and what the geocoding service of a given name gives for a location name
  (\<open>Inl\<close> when the request throws or finds nothing, otherwise latitude, longitude and
  address).
\<close>

record geo_env =
  gemini_api_key :: bool
  google_maps_api_key :: bool
  mapbox_api_key :: bool
  gemini_reply :: "exn + string option"
  geocoder :: "string \<Rightarrow> string \<Rightarrow> exn + (rat \<times> rat \<times> string)"

definition extractLocationWithGemini :: "geo_env \<Rightarrow> string \<Rightarrow> exn + string" where
  "extractLocationWithGemini env inputText =
     (if \<not> gemini_api_key env then Inl (JsError ''Gemini API key not configured'')
      else (case gemini_reply env of
              Inl e \<Rightarrow> Inl e
            | Inr None \<Rightarrow> Inl (JsError ''No response from Gemini API'')
            | Inr (Some generatedText) \<Rightarrow>
                if generatedText = [] then Inl (JsError ''No response from Gemini API'')
                else (let locationName =
                            filter (\<lambda>c. c \<noteq> CHR 0x27 \<and> c \<noteq> CHR 0x22) (trim generatedText)
                      in if js_includes (toLowerCase locationName) ''not specified''
                         then Inl (JsError ''No location found in text'')
                         else Inr locationName)))"

definition geocodeWith :: "geo_env \<Rightarrow> string \<Rightarrow> string \<Rightarrow> exn + coords" where
  "geocodeWith env svc locationName =
     (case geocoder env svc locationName of
        Inl e \<Rightarrow> Inl e
      | Inr (la, lo, address) \<Rightarrow>
          Inr \<lparr> lat = Some la, lng = Some lo, formatted_address = address, service = svc \<rparr>)"

text \<open>\<^verbatim>\<open>geocodeLocation\<close>: the first configured service is the only one tried.\<close>

definition geocodeLocation :: "geo_env \<Rightarrow> string \<Rightarrow> exn + coords" where
  "geocodeLocation env locationName =
     (if google_maps_api_key env then geocodeWith env ''google_maps'' locationName
      else if mapbox_api_key env then geocodeWith env ''mapbox'' locationName
      else geocodeWith env ''nominatim'' locationName)"

subsection \<open>The route \<^verbatim>\<open>POST /api/geocode\<close>\<close>

datatype provider_call = ExtractLocation string | GeocodeLocation string | VerifyImage string

text \<open>The state the routes share: the cache table, and the calls made to provider
  functions so far.\<close>

record world =
  rows :: cache_table
  calls :: "provider_call list"

text \<open>The store's condition at each of a request's calls to it, and the clock at the
  cache read and at the cache write.\<close>

record store_env =
  sel :: store_cond
  del :: store_cond
  ups :: store_cond
  t_read :: int
  t_write :: int

datatype response = Json nat jsvalue | ErrorJson nat string

record geocode_body =
  body_text :: "string option"
  body_description :: "string option"

text \<open>A request field is falsy when it is missing or the empty string.\<close>

definition falsy :: "string option \<Rightarrow> bool" where
  "falsy x = (x = None \<or> x = Some [])"

text \<open>The inner \<^verbatim>\<open>try\<close>/\<^verbatim>\<open>catch\<close> of the route: the result, and the provider functions
  it called.\<close>

definition resolve_geocode :: "geo_env \<Rightarrow> string \<Rightarrow> geocode_result \<times> provider_call list" where
  "resolve_geocode env inputText =
     (case extractLocationWithGemini env inputText of
        Inl e \<Rightarrow> (mockLocationExtraction inputText, [ExtractLocation inputText])
      | Inr locationName \<Rightarrow>
          (case geocodeLocation env locationName of
             Inl e \<Rightarrow> (mockLocationExtraction inputText,
                       [ExtractLocation inputText, GeocodeLocation locationName])
           | Inr c \<Rightarrow> (\<lparr> original_text = inputText,
                          extracted_location = locationName,
                          coordinates = c,
                          success = True,
                          mock = False \<rparr>,
                       [ExtractLocation inputText, GeocodeLocation locationName])))"

definition message :: "exn \<Rightarrow> string" where
  "message e = (case e of JsError m \<Rightarrow> m)"

text \<open>\<^verbatim>\<open>text || description\<close>, a string once one of the two is truthy.\<close>

definition input_text :: "geocode_body \<Rightarrow> string" where
  "input_text body =
     (case (if falsy (body_text body) then body_description body else body_text body) of
        Some t \<Rightarrow> t
      | None \<Rightarrow> [])"

definition geocoding_post ::
  "geo_env \<Rightarrow> store_env \<Rightarrow> geocode_body \<Rightarrow> world \<Rightarrow> response \<times> world" where
  "geocoding_post env st body w =
     (if falsy (body_text body) \<and> falsy (body_description body)
      then (ErrorJson 400 ''Text or description is required'', w)
      else
        (let inputText = input_text body;
             cacheKey = geocoding_key inputText
         in case getFromCache (sel st) (del st) (t_read st) (rows w) cacheKey of
              Inl e \<Rightarrow> (ErrorJson 500 (message e), w)
            | Inr (cachedResult, rows1) \<Rightarrow>
                if truthy cachedResult then (Json 200 cachedResult, w\<lparr>rows := rows1\<rparr>)
                else
                  (let (result, called) = resolve_geocode env inputText;
                       w1 = w\<lparr>rows := rows1, calls := calls w @ called\<rparr>
                   in case setCache (ups st) (t_write st) rows1 cacheKey (JGeocode result) 7200 of
                        Inl e \<Rightarrow> (ErrorJson 500 (message e), w1)
                      | Inr rows2 \<Rightarrow> (Json 200 (JGeocode result), w1\<lparr>rows := rows2\<rparr>))))"

section \<open>Image verification (routes/verification.js)\<close>

record disaster =
  tags :: "string list"
  location_name :: "string option"

text \<open>The fields of the object that Gemini's answer parses to.\<close>

record analysis =
  an_authenticity_score :: "rat option"
  an_manipulation_detected :: bool
  an_context_match :: bool
  an_analysis_summary :: string
  an_confidence_level :: string

text \<open>What \<^verbatim>\<open>supabase.from('disasters').select('*').eq('id', id).single()\<close> gives.\<close>

datatype lookup_result = LookupThrows string | LookupError string | LookupData "disaster option"

text \<open>
  Per request: the key, what the Gemini request gives, what
  \<^verbatim>\<open>JSON.parse(generatedText.match(/\{[\s\S]*\}/)[0])\<close> gives on a text (\<open>None\<close> when
  nothing matches or the parse throws), the disaster lookup, the condition of the store at
  the report update, the value \<^verbatim>\<open>Math.random()\<close> returns and the clock at the result's
  timestamp.
\<close>

record verify_env =
  v_gemini_api_key :: bool
  v_gemini_reply :: "exn + string option"
  parse_json :: "string \<Rightarrow> analysis option"
  disaster_lookup :: lookup_result
  report_update :: store_cond
  random :: rat
  now :: int

text \<open>\<^verbatim>\<open>x > n\<close> on a field that may be missing: \<^verbatim>\<open>undefined > n\<close> is false.\<close>

definition js_gt :: "rat option \<Rightarrow> rat \<Rightarrow> bool" where
  "js_gt x n = (case x of None \<Rightarrow> False | Some v \<Rightarrow> v > n)"

definition verifyImageWithGemini ::
  "verify_env \<Rightarrow> string \<Rightarrow> disaster \<Rightarrow> exn + verification_result" where
  "verifyImageWithGemini env imageUrl d =
     (if \<not> v_gemini_api_key env then Inl (JsError ''Gemini API key not configured'')
      else (case v_gemini_reply env of
              Inl e \<Rightarrow> Inl e
            | Inr None \<Rightarrow> Inl (JsError ''No response from Gemini API'')
            | Inr (Some generatedText) \<Rightarrow>
                if generatedText = [] then Inl (JsError ''No response from Gemini API'')
                else
                  (let a = (case parse_json env generatedText of
                              Some parsed \<Rightarrow> parsed
                            | None \<Rightarrow>
                                \<lparr> an_authenticity_score =
                                    Some (if js_includes (toLowerCase generatedText) ''fake''
                                          then 30 else 80),
                                  an_manipulation_detected =
                                    (js_includes (toLowerCase generatedText) ''manipulated''
                                     \<or> js_includes (toLowerCase generatedText) ''edited''),
                                  an_context_match =
                                    (\<not> js_includes (toLowerCase generatedText) ''unrelated''),
                                  an_analysis_summary = take 200 generatedText,
                                  an_confidence_level = ''medium'' \<rparr>)
                   in Inr \<lparr> status =
                              (if js_gt (an_authenticity_score a) 70 then ''verified''
                               else if js_gt (an_authenticity_score a) 40 then ''suspicious''
                               else ''fake''),
                            authenticity_score = an_authenticity_score a,
                            manipulation_detected = an_manipulation_detected a,
                            context_match = an_context_match a,
                            analysis_summary = an_analysis_summary a,
                            confidence_level = an_confidence_level a,
                            verification_method = ''gemini_api'',
                            timestamp = now env \<rparr>)))"

text \<open>\<^verbatim>\<open>mockImageVerification\<close>; \<open>r\<close> is the value of \<^verbatim>\<open>Math.random()\<close>, \<open>t\<close> the clock.\<close>

definition mockImageVerification :: "rat \<Rightarrow> int \<Rightarrow> string \<Rightarrow> disaster \<Rightarrow> verification_result" where
  "mockImageVerification r t imageUrl d =
     (let score = (of_int (\<lfloor>r * 40\<rfloor> + 60) :: rat);
          suspiciousPatterns = [''fake'', ''staged'', ''stock'', ''shutterstock''];
          isSuspicious = list_ex (\<lambda>pattern. js_includes (toLowerCase imageUrl) pattern)
                                 suspiciousPatterns
      in \<lparr> status = (if isSuspicious then ''suspicious''
                     else if score > 80 then ''verified'' else ''pending''),
           authenticity_score = Some (if isSuspicious then 25 else score),
           manipulation_detected = isSuspicious,
           context_match = True,
           analysis_summary =
             (if isSuspicious
              then ''Image shows signs of being staged or stock photography''
              else ''Image appears authentic with no obvious signs of manipulation''),
           confidence_level = ''medium'',
           verification_method = ''mock_analysis'',
           timestamp = t \<rparr>)"

record verify_body =
  image_url :: "string option"
  report_id :: "string option"

definition verification_key :: "string \<Rightarrow> string" where
  "verification_key imageUrl = ''image_verification_'' @ base64 imageUrl"

text \<open>The inner \<^verbatim>\<open>try\<close>/\<^verbatim>\<open>catch\<close> of the route.\<close>

definition resolve_verification ::
  "verify_env \<Rightarrow> string \<Rightarrow> disaster \<Rightarrow> verification_result \<times> provider_call list" where
  "resolve_verification env imageUrl d =
     (case verifyImageWithGemini env imageUrl d of
        Inl e \<Rightarrow> (mockImageVerification (random env) (now env) imageUrl d, [VerifyImage imageUrl])
      | Inr r \<Rightarrow> (r, [VerifyImage imageUrl]))"

text \<open>The route \<^verbatim>\<open>POST /api/disasters/:id/verify-image\<close>. The report update throws
  only when the store is unreachable; an \<^verbatim>\<open>error\<close> field is logged and ignored.\<close>

definition verification_post ::
  "verify_env \<Rightarrow> store_env \<Rightarrow> verify_body \<Rightarrow> world \<Rightarrow> response \<times> world" where
  "verification_post env st body w =
     (if falsy (image_url body) then (ErrorJson 400 ''Image URL is required'', w)
      else
        (let imageUrl = (case image_url body of Some u \<Rightarrow> u | None \<Rightarrow> []);
             cacheKey = verification_key imageUrl
         in case getFromCache (sel st) (del st) (t_read st) (rows w) cacheKey of
              Inl e \<Rightarrow> (ErrorJson 500 (message e), w)
            | Inr (cachedResult, rows1) \<Rightarrow>
                if truthy cachedResult then (Json 200 cachedResult, w\<lparr>rows := rows1\<rparr>)
                else
                  (case disaster_lookup env of
                     LookupThrows m \<Rightarrow> (ErrorJson 500 m, w\<lparr>rows := rows1\<rparr>)
                   | LookupError m \<Rightarrow> (ErrorJson 500 m, w\<lparr>rows := rows1\<rparr>)
                   | LookupData None \<Rightarrow> (ErrorJson 404 ''Disaster not found'', w\<lparr>rows := rows1\<rparr>)
                   | LookupData (Some d) \<Rightarrow>
                       (let (result, called) = resolve_verification env imageUrl d;
                            w1 = w\<lparr>rows := rows1, calls := calls w @ called\<rparr>
                        in case (if falsy (report_id body) then Up else report_update env) of
                             Unreachable m \<Rightarrow> (ErrorJson 500 m, w1)
                           | _ \<Rightarrow>
                             (case setCache (ups st) (t_write st) rows1 cacheKey
                                            (JVerification result) 3600 of
                                Inl e \<Rightarrow> (ErrorJson 500 (message e), w1)
                              | Inr rows2 \<Rightarrow>
                                  (Json 200 (JVerification result), w1\<lparr>rows := rows2\<rparr>))))))"

section \<open>The relevance score (routes/socialMedia.js)\<close>

record social_post =
  post :: string
  post_timestamp :: int
  priority :: string
  post_keywords :: "string list"

definition priorityScores :: "(string \<times> rat) list" where
  "priorityScores = [(''urgent'', 10), (''high'', 7), (''medium'', 5), (''low'', 2)]"

text \<open>
  \<^verbatim>\<open>calculateRelevanceScore\<close> at the time \<open>t\<close> that \<^verbatim>\<open>Date.now()\<close> gives. The result is
  \<open>None\<close> when the score is not a number: a priority that names an inherited property
  adds a function to the score, which turns it into a string.
\<close>

text \<open>\<^verbatim>\<open>disaster.location_name.toLowerCase().split(/[,\s]+/)\<close>, and no keyword when the
  location name is missing or empty.\<close>

definition locationKeywords :: "disaster \<Rightarrow> string list" where
  "locationKeywords d =
     (if falsy (location_name d) then []
      else split_comma_space (toLowerCase (case location_name d of Some l \<Rightarrow> l | None \<Rightarrow> [])))"

definition calculateRelevanceScore :: "int \<Rightarrow> social_post \<Rightarrow> disaster \<Rightarrow> rat option" where
  "calculateRelevanceScore t p d =
     (let tagScore = (\<Sum>tag \<leftarrow> tags d.
                        if js_includes (toLowerCase (post p)) (toLowerCase tag) then 5 else 0);
          locationScore = (\<Sum>keyword \<leftarrow> locationKeywords d.
                             if js_includes (toLowerCase (post p)) keyword then 3 else 0);
          hoursOld = (of_int (t - post_timestamp p) :: rat) / (1000 * 60 * 60);
          recency = max 0 (5 - hoursOld)
      in case js_get priorityScores (priority p) of
           Own n \<Rightarrow> Some (n + tagScore + locationScore + recency)
         | Undefined \<Rightarrow> Some (0 + tagScore + locationScore + recency)
         | Inherited k \<Rightarrow> None)"

section \<open>The socket handlers (socket/handlers.js)\<close>

text \<open>
  Socket.IO keeps, for each connected socket, the set of rooms it is in; a socket starts in
  the room named by its own id. \<^verbatim>\<open>io.to(room).emit\<close> sends one packet to each connected
  socket that is in the room, \<^verbatim>\<open>io.emit\<close> one to each connected socket; neither is kept
  for later. A packet is the receiving socket's id, the event and the data.
\<close>

record socket =
  socket_id :: string
  socket_rooms :: "string list"

type_synonym io = "socket list"

type_synonym packet = "string \<times> string \<times> string"







definition on_disconnect :: "string \<Rightarrow> io \<Rightarrow> io" where
  "on_disconnect sid srv = filter (\<lambda>s. socket_id s \<noteq> sid) srv"


definition io_emit :: "io \<Rightarrow> string \<Rightarrow> string \<Rightarrow> packet list" where
  "io_emit srv event data = map (\<lambda>s. (socket_id s, event, data)) srv"


section \<open>The authentication middleware (middleware/index.js)\<close>

record user =
  user_id :: string
  user_role :: string
  user_name :: string

definition mockUsers :: "(string \<times> user) list" where
  "mockUsers =
     [(''netrunnerX'', \<lparr> user_id = ''netrunnerX'', user_role = ''admin'', user_name = ''NetRunner X'' \<rparr>),
      (''reliefAdmin'', \<lparr> user_id = ''reliefAdmin'', user_role = ''admin'', user_name = ''Relief Admin'' \<rparr>),
      (''citizen1'', \<lparr> user_id = ''citizen1'', user_role = ''contributor'',
                       user_name = ''Citizen Reporter'' \<rparr>)]"

text \<open>A middleware either calls \<^verbatim>\<open>next()\<close>, here with the value it has put in
  \<^verbatim>\<open>req.user\<close>, or answers the request itself.\<close>

datatype middleware_outcome = Next "user property" | Answered nat string

text \<open>\<^verbatim>\<open>mockUsers[userId] || mockUsers['citizen1']\<close>: every property found, own or
  inherited, is truthy.\<close>

definition authenticate :: "string option \<Rightarrow> middleware_outcome" where
  "authenticate authHeader =
     (let userId = (if falsy authHeader then ''citizen1''
                    else replace_first ''Bearer '' []
                           (case authHeader of Some h \<Rightarrow> h | None \<Rightarrow> []))
      in Next (case js_get mockUsers userId of
                 Undefined \<Rightarrow> js_get mockUsers ''citizen1''
               | found \<Rightarrow> found))"

section \<open>The two routes on any JSON body\<close>

text \<open>
  \<^verbatim>\<open>express.json()\<close> hands the routes whatever JSON object the client sent, so a field
  of \<^verbatim>\<open>req.body\<close> is absent (\<open>None\<close>) or any JSON value. This section follows the two
  handlers on such fields. It records the reply (status and body) and, in order, the calls
  the handler makes to the cache, the database and the provider functions; the cache table
  after the request is given by \<open>geocoding_post\<close> and \<open>verification_post\<close> above.
\<close>

datatype json =
    JsonNull
  | JsonBool bool
  | JsonNumber rat
  | JsonString string
  | JsonArray "json list"
  | JsonObject "(string \<times> json) list"

fun truthy_json :: "json \<Rightarrow> bool" where
  "truthy_json JsonNull = False"
| "truthy_json (JsonBool b) = b"
| "truthy_json (JsonNumber n) = (n \<noteq> 0)"
| "truthy_json (JsonString s) = (s \<noteq> [])"
| "truthy_json (JsonArray xs) = True"
| "truthy_json (JsonObject kvs) = True"

definition truthy_field :: "json option \<Rightarrow> bool" where
  "truthy_field x = (case x of None \<Rightarrow> False | Some v \<Rightarrow> truthy_json v)"

text \<open>
  What Node does with a value that is no string is taken as given: the message of the
  TypeError that \<^verbatim>\<open>Buffer.from\<close> throws on a number or a boolean; what
  \<^verbatim>\<open>Buffer.from(v).toString('base64')\<close> gives on an array or an object (the bytes of an
  array or an array-like object, a TypeError on other objects); and the text that a
  template literal makes of a value.
\<close>

record node =
  buffer_message :: "json \<Rightarrow> string"
  buffer_composite :: "json \<Rightarrow> exn + string"
  to_string :: "json \<Rightarrow> string"

text \<open>\<^verbatim>\<open>Buffer.from(v).toString('base64')\<close>.\<close>

definition buffer_base64 :: "node \<Rightarrow> json \<Rightarrow> exn + string" where
  "buffer_base64 nd v =
     (case v of
        JsonString s \<Rightarrow> Inr (base64 s)
      | JsonArray xs \<Rightarrow> buffer_composite nd v
      | JsonObject kvs \<Rightarrow> buffer_composite nd v
      | _ \<Rightarrow> Inl (JsError (buffer_message nd v)))"

text \<open>The text of a value inside the prompt's template literal.\<close>

definition prompt_text :: "node \<Rightarrow> json \<Rightarrow> string" where
  "prompt_text nd v = (case v of JsonString s \<Rightarrow> s | _ \<Rightarrow> to_string nd v)"

datatype outside_call =
    CacheGet string
  | CacheSet string
  | DisasterSelect
  | ReportUpdate
  | ExtractCall
  | GeocodeCall string
  | VerifyCall

text \<open>A reply: \<open>Sent v\<close> is \<^verbatim>\<open>res.json(v)\<close>, \<open>SentGeocode v name c\<close> is
  \<^verbatim>\<open>res.json\<close> of the geocoding result whose \<^verbatim>\<open>original_text\<close> is the value \<open>v\<close>, no
  string, and \<open>Rejected status reason\<close> is \<^verbatim>\<open>res.status(status).json({ error: reason })\<close>.\<close>

datatype reply =
    Sent jsvalue
  | SentGeocode json string coords
  | Rejected nat string

text \<open>\<^verbatim>\<open>text || description\<close>.\<close>

definition input_field :: "json option \<Rightarrow> json option \<Rightarrow> json option" where
  "input_field text_field description = (if truthy_field text_field then text_field else description)"

text \<open>
  \<^verbatim>\<open>mockLocationExtraction(text)\<close> inside the \<^verbatim>\<open>catch\<close> of the geocoding route: on a
  value that is no string, \<^verbatim>\<open>text.match\<close> is not a function, and the TypeError reaches the
  route's outer \<^verbatim>\<open>catch\<close>. Otherwise the result is cached and sent. \<^verbatim>\<open>setCache\<close> returns
  normally whatever happens, so only the call is recorded.
\<close>

definition geocoding_fallback ::
  "json \<Rightarrow> string \<Rightarrow> outside_call list \<Rightarrow> reply \<times> outside_call list" where
  "geocoding_fallback inputText cacheKey made =
     (case inputText of
        JsonString s \<Rightarrow> (Sent (JGeocode (mockLocationExtraction s)), made @ [CacheSet cacheKey])
      | _ \<Rightarrow> (Rejected 500 ''text.match is not a function'', made))"

text \<open>The route \<^verbatim>\<open>POST /api/geocode\<close> on the fields \<^verbatim>\<open>text\<close> and \<^verbatim>\<open>description\<close>,
  with the cache table \<open>tbl\<close>.\<close>

definition geocoding_request ::
  "node \<Rightarrow> geo_env \<Rightarrow> store_env \<Rightarrow> cache_table \<Rightarrow> json option \<Rightarrow> json option
   \<Rightarrow> reply \<times> outside_call list" where
  "geocoding_request nd env st tbl text_field description =
     (if \<not> truthy_field text_field \<and> \<not> truthy_field description
      then (Rejected 400 ''Text or description is required'', [])
      else
        (let inputText = (case input_field text_field description of
                            Some v \<Rightarrow> v | None \<Rightarrow> JsonNull)
         in case buffer_base64 nd inputText of
              Inl e \<Rightarrow> (Rejected 500 (message e), [])
            | Inr b64 \<Rightarrow>
               (let cacheKey = ''geocoding_'' @ b64
                in case getFromCache (sel st) (del st) (t_read st) tbl cacheKey of
                     Inl e \<Rightarrow> (Rejected 500 (message e), [CacheGet cacheKey])
                   | Inr (cachedResult, tbl1) \<Rightarrow>
                       if truthy cachedResult then (Sent cachedResult, [CacheGet cacheKey])
                       else
                         (case extractLocationWithGemini env (prompt_text nd inputText) of
                            Inl e \<Rightarrow>
                              geocoding_fallback inputText cacheKey [CacheGet cacheKey, ExtractCall]
                          | Inr locationName \<Rightarrow>
                              (case geocodeLocation env locationName of
                                 Inl e \<Rightarrow>
                                   geocoding_fallback inputText cacheKey
                                     [CacheGet cacheKey, ExtractCall, GeocodeCall locationName]
                               | Inr c \<Rightarrow>
                                   ((case inputText of
                                       JsonString s \<Rightarrow>
                                         Sent (JGeocode \<lparr> original_text = s,
                                                              extracted_location = locationName,
                                                              coordinates = c,
                                                              success = True,
                                                              mock = False \<rparr>)
                                     | _ \<Rightarrow> SentGeocode inputText locationName c),
                                    [CacheGet cacheKey, ExtractCall, GeocodeCall locationName,
                                     CacheSet cacheKey]))))))"

text \<open>
  The table \<^verbatim>\<open>disasters\<close> as the verification route sees it: the condition of the
  store at the lookup, the row with the request's id if there is one, and the message of
  the error that \<^verbatim>\<open>single()\<close> reports when no row matches.
\<close>

record disasters_env =
  db_cond :: store_cond
  db_row :: "disaster option"
  db_no_rows :: string

text \<open>\<^verbatim>\<open>supabase.from('disasters').select('*').eq('id', disasterId).single()\<close>: the pair
  of \<^verbatim>\<open>data\<close> and \<^verbatim>\<open>error\<close>.\<close>

definition select_disaster :: "disasters_env \<Rightarrow> exn + (disaster option \<times> string option)" where
  "select_disaster db =
     (case db_cond db of
        Unreachable m \<Rightarrow> Inl (JsError m)
      | Erring m \<Rightarrow> Inr (None, Some m)
      | Up \<Rightarrow> (case db_row db of
                 None \<Rightarrow> Inr (None, Some (db_no_rows db))
               | Some d \<Rightarrow> Inr (Some d, None)))"

text \<open>The rest of the verification route once the result \<open>r\<close> is there: the report
  update when \<^verbatim>\<open>report_id\<close> is truthy, the cache write, the answer.\<close>

definition verification_finish ::
  "verify_env \<Rightarrow> json option \<Rightarrow> string \<Rightarrow> verification_result \<Rightarrow> outside_call list
   \<Rightarrow> reply \<times> outside_call list" where
  "verification_finish env report cacheKey r made =
     (if truthy_field report
      then (case report_update env of
              Unreachable m \<Rightarrow> (Rejected 500 m, made @ [ReportUpdate])
            | _ \<Rightarrow> (Sent (JVerification r), made @ [ReportUpdate, CacheSet cacheKey]))
      else (Sent (JVerification r), made @ [CacheSet cacheKey]))"

text \<open>The route \<^verbatim>\<open>POST /api/disasters/:id/verify-image\<close> on the fields \<^verbatim>\<open>image_url\<close>
  and \<^verbatim>\<open>report_id\<close>. In the fallback, \<^verbatim>\<open>imageUrl.toLowerCase\<close> is not a function on a
  value that is no string.\<close>

definition verification_request ::
  "node \<Rightarrow> verify_env \<Rightarrow> disasters_env \<Rightarrow> store_env \<Rightarrow> cache_table
   \<Rightarrow> json option \<Rightarrow> json option \<Rightarrow> reply \<times> outside_call list" where
  "verification_request nd env db st tbl url report =
     (if \<not> truthy_field url then (Rejected 400 ''Image URL is required'', [])
      else
        (let imageUrl = (case url of Some v \<Rightarrow> v | None \<Rightarrow> JsonNull)
         in case buffer_base64 nd imageUrl of
              Inl e \<Rightarrow> (Rejected 500 (message e), [])
            | Inr b64 \<Rightarrow>
               (let cacheKey = ''image_verification_'' @ b64
                in case getFromCache (sel st) (del st) (t_read st) tbl cacheKey of
                     Inl e \<Rightarrow> (Rejected 500 (message e), [CacheGet cacheKey])
                   | Inr (cachedResult, tbl1) \<Rightarrow>
                       if truthy cachedResult then (Sent cachedResult, [CacheGet cacheKey])
                       else
                         (case select_disaster db of
                            Inl e \<Rightarrow> (Rejected 500 (message e), [CacheGet cacheKey, DisasterSelect])
                          | Inr (data, disasterError) \<Rightarrow>
                              (case disasterError of
                                 Some m \<Rightarrow> (Rejected 500 m, [CacheGet cacheKey, DisasterSelect])
                               | None \<Rightarrow>
                                   (case data of
                                      None \<Rightarrow> (Rejected 404 ''Disaster not found'',
                                                [CacheGet cacheKey, DisasterSelect])
                                    | Some d \<Rightarrow>
                                        (case verifyImageWithGemini env (prompt_text nd imageUrl) d of
                                           Inr r \<Rightarrow>
                                             verification_finish env report cacheKey r
                                               [CacheGet cacheKey, DisasterSelect, VerifyCall]
                                         | Inl e \<Rightarrow>
                                             (case imageUrl of
                                                JsonString s \<Rightarrow>
                                                  verification_finish env report cacheKey
                                                    (mockImageVerification (random env) (now env) s d)
                                                    [CacheGet cacheKey, DisasterSelect, VerifyCall]
                                              | _ \<Rightarrow>
                                                  (Rejected 500 ''imageUrl.toLowerCase is not a function'',
                                                   [CacheGet cacheKey, DisasterSelect,
                                                    VerifyCall])))))))))"

text \<open>The typed routes above are these routes on fields that are absent or strings:
  \<open>reply_of\<close> reads a response as a reply, \<open>lookup_of\<close> the table as a lookup result.\<close>

definition reply_of :: "response \<Rightarrow> reply" where
  "reply_of r = (case r of Json n v \<Rightarrow> Sent v | ErrorJson n m \<Rightarrow> Rejected n m)"

definition lookup_of :: "disasters_env \<Rightarrow> lookup_result" where
  "lookup_of db =
     (case db_cond db of
        Unreachable m \<Rightarrow> LookupThrows m
      | Erring m \<Rightarrow> LookupError m
      | Up \<Rightarrow> (case db_row db of
                 None \<Rightarrow> LookupError (db_no_rows db)
               | Some d \<Rightarrow> LookupData (Some d)))"

section \<open>Example requests\<close>

text \<open>An environment with no key configured and no network, a store that answers, one
  that fails, an empty state, and two request bodies.\<close>

definition no_keys_env :: geo_env where
  "no_keys_env = \<lparr> gemini_api_key = False, google_maps_api_key = False,
                    mapbox_api_key = False, gemini_reply = Inr None,
                    geocoder = (\<lambda>svc locationName. Inl (JsError ''no network'')) \<rparr>"

definition store_up :: "int \<Rightarrow> store_env" where
  "store_up t = \<lparr> sel = Up, del = Up, ups = Up, t_read = t, t_write = t + 5 \<rparr>"

definition store_down :: "int \<Rightarrow> store_env" where
  "store_down t = \<lparr> sel = Erring ''down'', del = Unreachable ''down'',
                     ups = Unreachable ''down'', t_read = t, t_write = t + 5 \<rparr>"

definition empty_world :: world where
  "empty_world = \<lparr> rows = Map.empty, calls = [] \<rparr>"

definition manhattan_body :: geocode_body where
  "manhattan_body = \<lparr> body_text = Some ''Flooding near Manhattan, NYC, need food'',
                       body_description = None \<rparr>"

definition photo_body :: verify_body where
  "photo_body = \<lparr> image_url = Some ''http://example.org/flood.jpg'', report_id = None \<rparr>"

definition flood :: disaster where
  "flood = \<lparr> tags = [''flood''], location_name = Some ''Manhattan, NYC'' \<rparr>"

definition offline_verify_env :: "lookup_result \<Rightarrow> verify_env" where
  "offline_verify_env l = \<lparr> v_gemini_api_key = False, v_gemini_reply = Inr None,
                             parse_json = (\<lambda>t. None), disaster_lookup = l,
                             report_update = Up, random = 1 / 2, now = 1000 \<rparr>"

definition answering_verify_env :: "rat \<Rightarrow> verify_env" where
  "answering_verify_env score =
     \<lparr> v_gemini_api_key = True, v_gemini_reply = Inr (Some ''analysis''),
       parse_json = (\<lambda>t. Some \<lparr> an_authenticity_score = Some score,
                                 an_manipulation_detected = False,
                                 an_context_match = True,
                                 an_analysis_summary = ''looks real'',
                                 an_confidence_level = ''high'' \<rparr>),
       disaster_lookup = LookupData (Some flood),
       report_update = Up, random = 1 / 2, now = 1000 \<rparr>"

definition node0 :: node where
  "node0 = \<lparr> buffer_message = (\<lambda>v. ''The first argument must be of type string''),
             buffer_composite = (\<lambda>v. Inr ''AA==''),
             to_string = (\<lambda>v. ''x'') \<rparr>"

definition no_such_disaster :: disasters_env where
  "no_such_disaster = \<lparr> db_cond = Up, db_row = None,
                        db_no_rows = ''JSON object requested, multiple (or no) rows returned'' \<rparr>"

definition flood_row :: disasters_env where
  "flood_row = \<lparr> db_cond = Up, db_row = Some flood,
                 db_no_rows = ''JSON object requested, multiple (or no) rows returned'' \<rparr>"

definition urgent_post :: social_post where
  "urgent_post = \<lparr> post = ''URGENT: flood water rising in Manhattan NYC'', post_timestamp = 0,
                    priority = ''urgent'', post_keywords = [] \<rparr>"

definition low_post :: social_post where
  "low_post = \<lparr> post = ''Sunny day at the beach'', post_timestamp = 0,
                 priority = ''low'', post_keywords = [] \<rparr>"


section \<open>Properties of the cache\<close>

lemma getFromCache_total: "\<exists>r. getFromCache s d t tbl key = Inr r"
  by (simp add: getFromCache_def split: sum.splits)

lemma setCache_total: "\<exists>r. setCache u t tbl key v ttl = Inr r"
  by (simp add: setCache_def split: sum.splits)

lemma getFromCache_not_Inl [simp]: "getFromCache s d t tbl key \<noteq> Inl e"
  by (simp add: getFromCache_def split: sum.splits)

lemma setCache_not_Inl [simp]: "setCache u t tbl key v ttl \<noteq> Inl e"
  by (simp add: setCache_def split: sum.splits)

lemma getFromCache_absent: "tbl key = None \<Longrightarrow> getFromCache s d t tbl key = Inr (JNull, tbl)"
  by (simp add: getFromCache_def getFromCache_try_def select_single_def split: store_cond.splits)

lemma getFromCache_fault: "s \<noteq> Up \<Longrightarrow> getFromCache s d t tbl key = Inr (JNull, tbl)"
  by (simp add: getFromCache_def getFromCache_try_def select_single_def
           split: store_cond.splits option.splits)

lemma getFromCache_fresh:
  "tbl key = Some (v, e) \<Longrightarrow> \<not> e < t \<Longrightarrow> getFromCache Up d t tbl key = Inr (v, tbl)"
  by (simp add: getFromCache_def getFromCache_try_def select_single_def)

lemma getFromCache_expired_up:
  "tbl key = Some (v, e) \<Longrightarrow> e < t \<Longrightarrow>
   getFromCache Up Up t tbl key = Inr (JNull, tbl(key := None))"
  by (simp add: getFromCache_def getFromCache_try_def select_single_def delete_eq_def)

lemma getFromCache_expired_any:
  "tbl key = Some (v, e) \<Longrightarrow> e < t \<Longrightarrow>
   getFromCache s d t tbl key = Inr (JNull, tbl)
   \<or> getFromCache s d t tbl key = Inr (JNull, tbl(key := None))"
  by (simp add: getFromCache_def getFromCache_try_def select_single_def delete_eq_def
           split: store_cond.splits)

lemma setCache_up:
  "valid_time (t + ttl * 1000) \<Longrightarrow>
   setCache Up t tbl key v ttl = Inr (tbl(key \<mapsto> (v, t + ttl * 1000)))"
  by (simp add: setCache_def setCache_try_def upsert_def)

lemma setCache_fault: "u \<noteq> Up \<Longrightarrow> setCache u t tbl key v ttl = Inr tbl"
  by (simp add: setCache_def setCache_try_def upsert_def Let_def split: store_cond.splits)

lemma fst_getFromCache_del:
  "map_sum id fst (getFromCache s d t tbl key) = map_sum id fst (getFromCache s d' t tbl key)"
  by (simp add: getFromCache_def getFromCache_try_def select_single_def delete_eq_def
           split: store_cond.splits option.splits sum.splits prod.splits)

lemma case_getFromCache_cong:
  "map_sum id fst x = map_sum id fst y \<Longrightarrow>
   (case x of Inl e \<Rightarrow> f e | Inr (c, tbl1) \<Rightarrow> g c)
     = (case y of Inl e \<Rightarrow> f e | Inr (c, tbl1) \<Rightarrow> g c)"
  by (auto split: sum.splits prod.splits)

text \<open>
  C2. A get on a row whose \<^verbatim>\<open>expires_at\<close> lies before the clock returns \<^verbatim>\<open>null\<close> (a
  miss) and, the store answering, deletes the row; a second get on the same key, at any
  time and whatever the store's condition, returns \<^verbatim>\<open>null\<close> again, returns normally and
  leaves the table as it is. The last conjunct adds that the two gets miss and return
  normally also when the store fails during the first one, the clock not running backwards.
\<close>

theorem expired_get_misses_and_deletes:
  assumes "tbl key = Some (v, e)" and "e < t"
  shows "getFromCache Up Up t tbl key = Inr (JNull, tbl(key := None))
       \<and> getFromCache s2 d2 t2 (tbl(key := None)) key = Inr (JNull, tbl(key := None))
       \<and> (\<exists>tbl1. getFromCache s1 d1 t tbl key = Inr (JNull, tbl1)
            \<and> (t \<le> t2 \<longrightarrow> (\<exists>tbl2. getFromCache s2 d2 t2 tbl1 key = Inr (JNull, tbl2))))"
proof (intro conjI)
  show "getFromCache Up Up t tbl key = Inr (JNull, tbl(key := None))"
    using assms by (rule getFromCache_expired_up)
  show "getFromCache s2 d2 t2 (tbl(key := None)) key = Inr (JNull, tbl(key := None))"
    by (rule getFromCache_absent) simp
  have "getFromCache s1 d1 t tbl key = Inr (JNull, tbl)
      \<or> getFromCache s1 d1 t tbl key = Inr (JNull, tbl(key := None))"
    using assms by (rule getFromCache_expired_any)
  then show "\<exists>tbl1. getFromCache s1 d1 t tbl key = Inr (JNull, tbl1)
            \<and> (t \<le> t2 \<longrightarrow> (\<exists>tbl2. getFromCache s2 d2 t2 tbl1 key = Inr (JNull, tbl2)))"
  proof
    assume a: "getFromCache s1 d1 t tbl key = Inr (JNull, tbl)"
    have "t \<le> t2 \<Longrightarrow> \<exists>tbl2. getFromCache s2 d2 t2 tbl key = Inr (JNull, tbl2)"
      using getFromCache_expired_any[of tbl key v e t2 s2 d2] assms by auto
    with a show ?thesis by blast
  next
    assume a: "getFromCache s1 d1 t tbl key = Inr (JNull, tbl(key := None))"
    have "getFromCache s2 d2 t2 (tbl(key := None)) key = Inr (JNull, tbl(key := None))"
      by (rule getFromCache_absent) simp
    with a show ?thesis by blast
  qed
qed

theorem expired_get_misses_and_deletes_witness:
  "[''k'' \<mapsto> (JStr ''v'', 5)] ''k'' = Some (JStr ''v'', 5) \<and> (5::int) < 10
   \<and> getFromCache Up Up 10 [''k'' \<mapsto> (JStr ''v'', 5)] ''k'' = Inr (JNull, Map.empty)
   \<and> getFromCache Up Up 11 Map.empty ''k'' = Inr (JNull, Map.empty)"
  using expired_get_misses_and_deletes
          [of "[''k'' \<mapsto> (JStr ''v'', 5)]" "''k''" "JStr ''v''" 5 10 Up Up 11 Up Up]
  by simp

section \<open>Properties of the two routes\<close>

lemma geocoding_post_response:
  "fst (geocoding_post env st body w) =
     (if falsy (body_text body) \<and> falsy (body_description body)
      then ErrorJson 400 ''Text or description is required''
      else (case getFromCache (sel st) (del st) (t_read st) (rows w)
                   (geocoding_key (input_text body)) of
              Inl e \<Rightarrow> ErrorJson 500 (message e)
            | Inr (c, tbl1) \<Rightarrow>
                if truthy c then Json 200 c
                else Json 200 (JGeocode (fst (resolve_geocode env (input_text body))))))"
  by (simp add: geocoding_post_def Let_def split: sum.splits prod.splits)

lemma verification_post_response:
  "fst (verification_post env st body w) =
     (if falsy (image_url body) then ErrorJson 400 ''Image URL is required''
      else (case getFromCache (sel st) (del st) (t_read st) (rows w)
                   (verification_key (case image_url body of Some u \<Rightarrow> u | None \<Rightarrow> [])) of
              Inl e \<Rightarrow> ErrorJson 500 (message e)
            | Inr (c, tbl1) \<Rightarrow>
                if truthy c then Json 200 c
                else (case disaster_lookup env of
                        LookupThrows m \<Rightarrow> ErrorJson 500 m
                      | LookupError m \<Rightarrow> ErrorJson 500 m
                      | LookupData None \<Rightarrow> ErrorJson 404 ''Disaster not found''
                      | LookupData (Some d) \<Rightarrow>
                          (case (if falsy (report_id body) then Up else report_update env) of
                             Unreachable m \<Rightarrow> ErrorJson 500 m
                           | _ \<Rightarrow> Json 200 (JVerification (fst (resolve_verification env
                                   (case image_url body of Some u \<Rightarrow> u | None \<Rightarrow> []) d)))))))"
  by (simp add: verification_post_def Let_def
           split: sum.splits prod.splits lookup_result.splits option.splits store_cond.splits)

text \<open>
  C5. Whatever the store's condition, \<^verbatim>\<open>getFromCache\<close> and \<^verbatim>\<open>setCache\<close> return
  normally (never \<open>Inl\<close>, a thrown error). When the read fails, the get returns \<^verbatim>\<open>null\<close>
  and the table is as before; when the upsert fails, the put leaves the table as before.
  For the two routes: with a failing read the response is the one an empty, answering
  cache gives, and the response does not depend on the condition of the store at the
  delete and at the upsert.
\<close>

theorem cache_faults_never_raise:
  "(\<exists>r. getFromCache s d t tbl key = Inr r)
   \<and> (\<exists>r. setCache u t tbl key v ttl = Inr r)
   \<and> (s \<noteq> Up \<longrightarrow> getFromCache s d t tbl key = Inr (JNull, tbl))
   \<and> (u \<noteq> Up \<longrightarrow> setCache u t tbl key v ttl = Inr tbl)
   \<and> (sel st \<noteq> Up \<longrightarrow>
        fst (geocoding_post genv st gbody w)
          = fst (geocoding_post genv (st\<lparr>sel := Up\<rparr>) gbody (w\<lparr>rows := Map.empty\<rparr>))
      \<and> fst (verification_post venv st vbody w)
          = fst (verification_post venv (st\<lparr>sel := Up\<rparr>) vbody (w\<lparr>rows := Map.empty\<rparr>)))
   \<and> fst (geocoding_post genv (st\<lparr>del := d', ups := u'\<rparr>) gbody w)
        = fst (geocoding_post genv st gbody w)
   \<and> fst (verification_post venv (st\<lparr>del := d', ups := u'\<rparr>) vbody w)
        = fst (verification_post venv st vbody w)"
proof (intro conjI impI)
  show "\<exists>r. getFromCache s d t tbl key = Inr r" by (rule getFromCache_total)
  show "\<exists>r. setCache u t tbl key v ttl = Inr r" by (rule setCache_total)
  show "s \<noteq> Up \<Longrightarrow> getFromCache s d t tbl key = Inr (JNull, tbl)" by (rule getFromCache_fault)
  show "u \<noteq> Up \<Longrightarrow> setCache u t tbl key v ttl = Inr tbl" by (rule setCache_fault)
  show "sel st \<noteq> Up \<Longrightarrow> fst (geocoding_post genv st gbody w)
          = fst (geocoding_post genv (st\<lparr>sel := Up\<rparr>) gbody (w\<lparr>rows := Map.empty\<rparr>))"
    by (simp add: geocoding_post_response getFromCache_fault getFromCache_absent)
  show "sel st \<noteq> Up \<Longrightarrow> fst (verification_post venv st vbody w)
          = fst (verification_post venv (st\<lparr>sel := Up\<rparr>) vbody (w\<lparr>rows := Map.empty\<rparr>))"
    by (simp add: verification_post_response getFromCache_fault getFromCache_absent)
  show "fst (geocoding_post genv (st\<lparr>del := d', ups := u'\<rparr>) gbody w)
        = fst (geocoding_post genv st gbody w)"
    by (simp add: geocoding_post_response
          case_getFromCache_cong[OF fst_getFromCache_del[of "sel st" d' "t_read st" _ _ "del st"]])
  show "fst (verification_post venv (st\<lparr>del := d', ups := u'\<rparr>) vbody w)
        = fst (verification_post venv st vbody w)"
    by (simp add: verification_post_response
          case_getFromCache_cong[OF fst_getFromCache_del[of "sel st" d' "t_read st" _ _ "del st"]])
qed

theorem cache_faults_never_raise_witness:
  "Erring ''down'' \<noteq> Up \<and> Unreachable ''down'' \<noteq> Up
   \<and> getFromCache (Erring ''down'') Up 0 [''k'' \<mapsto> (JStr ''v'', 5)] ''k''
       = Inr (JNull, [''k'' \<mapsto> (JStr ''v'', 5)])
   \<and> setCache (Unreachable ''down'') 0 Map.empty ''k'' (JStr ''v'') 60 = Inr Map.empty
   \<and> sel (store_down 0) \<noteq> Up
   \<and> fst (geocoding_post no_keys_env (store_down 0) manhattan_body empty_world)
       = fst (geocoding_post no_keys_env ((store_down 0)\<lparr>sel := Up\<rparr>) manhattan_body
               (empty_world\<lparr>rows := Map.empty\<rparr>))"
  using cache_faults_never_raise
          [of "Erring ''down''" Up 0 "[''k'' \<mapsto> (JStr ''v'', 5)]" "''k''"
              "Unreachable ''down''" "JStr ''v''" 60
              "store_down 0" no_keys_env manhattan_body empty_world]
        cache_faults_never_raise
          [of Up Up 0 Map.empty "''k''" "Unreachable ''down''" "JStr ''v''" 60]
  by (simp add: store_down_def)

lemma geocoding_post_hit:
  assumes "\<not> (falsy (body_text body) \<and> falsy (body_description body))"
      and "sel st = Up"
      and "rows w (geocoding_key (input_text body)) = Some (v, e)"
      and "\<not> e < t_read st"
      and "truthy v"
  shows "geocoding_post env st body w = (Json 200 v, w)"
  using assms
  by (simp add: geocoding_post_def Let_def getFromCache_fresh)

lemma verification_post_hit:
  assumes "image_url body = Some u" and "u \<noteq> []"
      and "sel st = Up"
      and "rows w (verification_key u) = Some (v, e)"
      and "\<not> e < t_read st"
      and "truthy v"
  shows "verification_post env st body w = (Json 200 v, w)"
  using assms
  by (simp add: verification_post_def Let_def getFromCache_fresh falsy_def)

lemma getFromCache_no_fresh:
  assumes "\<forall>v e. tbl key = Some (v, e) \<longrightarrow> e < t"
  shows "\<exists>tbl1. getFromCache s d t tbl key = Inr (JNull, tbl1)"
proof (cases "tbl key")
  case None
  then show ?thesis by (simp add: getFromCache_absent)
next
  case (Some r)
  obtain v e where r: "r = (v, e)" by (cases r)
  with Some assms have "e < t" by simp
  with Some r getFromCache_expired_any[of tbl key v e t s d] show ?thesis by auto
qed

lemma geocoding_post_miss:
  assumes "\<not> (falsy (body_text body) \<and> falsy (body_description body))"
      and "getFromCache (sel st) (del st) (t_read st) (rows w) (geocoding_key (input_text body)) = Inr (JNull, tbl1)"
      and "ups st = Up" and "valid_time (t_write st + 7200 * 1000)"
  shows "geocoding_post env st body w =
          (Json 200 (JGeocode (fst (resolve_geocode env (input_text body)))),
           \<lparr> rows = tbl1(geocoding_key (input_text body) \<mapsto>
                       (JGeocode (fst (resolve_geocode env (input_text body))), t_write st + 7200 * 1000)),
             calls = calls w @ snd (resolve_geocode env (input_text body)) \<rparr>)"
  using assms
  by (simp add: geocoding_post_def Let_def setCache_up split: prod.splits)

lemma resolve_geocode_calls:
  "count_list (snd (resolve_geocode env t)) (ExtractLocation t) = 1
   \<and> count_list (snd (resolve_geocode env t)) c \<le> 1"
  by (auto simp add: resolve_geocode_def split: sum.splits)

lemma resolve_verification_calls:
  "snd (resolve_verification env u d) = [VerifyImage u]"
  by (simp add: resolve_verification_def split: sum.splits)

lemma verification_post_first:
  assumes "image_url body = Some u" and "u \<noteq> []"
      and "getFromCache (sel st) (del st) (t_read st) (rows w) (verification_key u) = Inr (JNull, tbl1)"
      and "ups st = Up" and "valid_time (t_write st + 3600 * 1000)"
      and "fst (verification_post env st body w) = Json 200 r"
  shows "snd (verification_post env st body w) =
           \<lparr> rows = tbl1(verification_key u \<mapsto> (r, t_write st + 3600 * 1000)),
             calls = calls w @ [VerifyImage u] \<rparr>"
  using assms
  by (cases w)
     (auto simp add: verification_post_def Let_def setCache_up falsy_def resolve_verification_calls
                     split_beta
           split: lookup_result.splits option.splits store_cond.splits if_splits)

text \<open>
  C1. For both routes: when the store answers the read and the table holds a row under
  the request's cache key that has not expired and holds a result (a truthy value), the
  route responds with that value and leaves the state, the list of provider calls
  included, as it is. Hence, for a first request that finds no unexpired row and whose
  write reaches the store, and a second request with the same input whose read is
  answered no later than the row's expiry: both responses are the same, the second request
  calls no provider function, and over the two requests each provider function is called at most
  once, \<^verbatim>\<open>extractLocationWithGemini\<close> (geocoding) and \<^verbatim>\<open>verifyImageWithGemini\<close>
  (verification) exactly once. For verification the first request is one that was answered
  with a result: the route answers with an error, before any provider, when the disaster
  lookup fails.
\<close>

theorem cache_hit_skips_providers:
  "(\<not> (falsy (body_text gb) \<and> falsy (body_description gb))
      \<and> sel gs = Up \<and> rows gw (geocoding_key (input_text gb)) = Some (gv, ge)
      \<and> \<not> ge < t_read gs \<and> truthy gv
    \<longrightarrow> geocoding_post genv gs gb gw = (Json 200 gv, gw))
   \<and> (image_url vb = Some u \<and> u \<noteq> []
      \<and> sel vs = Up \<and> rows vw (verification_key u) = Some (vv, ve)
      \<and> \<not> ve < t_read vs \<and> truthy vv
    \<longrightarrow> verification_post venv vs vb vw = (Json 200 vv, vw))
   \<and> (\<not> (falsy (body_text b) \<and> falsy (body_description b))
      \<and> (\<forall>v e. rows w0 (geocoding_key (input_text b)) = Some (v, e) \<longrightarrow> e < t_read st1)
      \<and> ups st1 = Up \<and> valid_time (t_write st1 + 7200 * 1000)
      \<and> sel st2 = Up \<and> t_read st2 \<le> t_write st1 + 7200 * 1000
    \<longrightarrow> (let (r1, w1) = geocoding_post env1 st1 b w0;
             (r2, w2) = geocoding_post env2 st2 b w1
         in r1 = Json 200 (JGeocode (fst (resolve_geocode env1 (input_text b))))
            \<and> r2 = r1
            \<and> calls w1 = calls w0 @ snd (resolve_geocode env1 (input_text b))
            \<and> calls w2 = calls w1
            \<and> count_list (calls w2) (ExtractLocation (input_text b))
                = count_list (calls w0) (ExtractLocation (input_text b)) + 1
            \<and> (\<forall>c. count_list (calls w2) c \<le> count_list (calls w0) c + 1)))
   \<and> (image_url ib = Some iu \<and> iu \<noteq> []
      \<and> (\<forall>v e. rows iw0 (verification_key iu) = Some (v, e) \<longrightarrow> e < t_read ist1)
      \<and> ups ist1 = Up \<and> valid_time (t_write ist1 + 3600 * 1000)
      \<and> fst (verification_post ienv1 ist1 ib iw0) = Json 200 ir
      \<and> sel ist2 = Up \<and> t_read ist2 \<le> t_write ist1 + 3600 * 1000
    \<longrightarrow> (let (r1, w1) = verification_post ienv1 ist1 ib iw0;
             (r2, w2) = verification_post ienv2 ist2 ib w1
         in r2 = r1
            \<and> calls w1 = calls iw0 @ [VerifyImage iu]
            \<and> calls w2 = calls w1))"
proof (intro conjI impI)
  assume "\<not> (falsy (body_text gb) \<and> falsy (body_description gb))
      \<and> sel gs = Up \<and> rows gw (geocoding_key (input_text gb)) = Some (gv, ge)
      \<and> \<not> ge < t_read gs \<and> truthy gv"
  then show "geocoding_post genv gs gb gw = (Json 200 gv, gw)"
    by (simp add: geocoding_post_hit)
next
  assume "image_url vb = Some u \<and> u \<noteq> []
      \<and> sel vs = Up \<and> rows vw (verification_key u) = Some (vv, ve)
      \<and> \<not> ve < t_read vs \<and> truthy vv"
  then show "verification_post venv vs vb vw = (Json 200 vv, vw)"
    by (simp add: verification_post_hit)
next
  let ?k = "geocoding_key (input_text b)"
  let ?g = "JGeocode (fst (resolve_geocode env1 (input_text b)))"
  assume a: "\<not> (falsy (body_text b) \<and> falsy (body_description b))
      \<and> (\<forall>v e. rows w0 ?k = Some (v, e) \<longrightarrow> e < t_read st1)
      \<and> ups st1 = Up \<and> valid_time (t_write st1 + 7200 * 1000)
      \<and> sel st2 = Up \<and> t_read st2 \<le> t_write st1 + 7200 * 1000"
  then obtain tbl1 where
    g: "getFromCache (sel st1) (del st1) (t_read st1) (rows w0) ?k = Inr (JNull, tbl1)"
    using getFromCache_no_fresh[of "rows w0" ?k "t_read st1" "sel st1" "del st1"] by blast
  let ?w1 = "\<lparr> rows = tbl1(?k \<mapsto> (?g, t_write st1 + 7200 * 1000)),
               calls = calls w0 @ snd (resolve_geocode env1 (input_text b)) \<rparr>"
  have first: "geocoding_post env1 st1 b w0 = (Json 200 ?g, ?w1)"
    using a g by (simp add: geocoding_post_miss)
  have second: "geocoding_post env2 st2 b ?w1 = (Json 200 ?g, ?w1)"
    using a by (intro geocoding_post_hit[where e = "t_write st1 + 7200 * 1000"]) auto
  show "let (r1, w1) = geocoding_post env1 st1 b w0;
             (r2, w2) = geocoding_post env2 st2 b w1
         in r1 = Json 200 ?g
            \<and> r2 = r1
            \<and> calls w1 = calls w0 @ snd (resolve_geocode env1 (input_text b))
            \<and> calls w2 = calls w1
            \<and> count_list (calls w2) (ExtractLocation (input_text b))
                = count_list (calls w0) (ExtractLocation (input_text b)) + 1
            \<and> (\<forall>c. count_list (calls w2) c \<le> count_list (calls w0) c + 1)"
    using resolve_geocode_calls[of env1 "input_text b"]
    by (simp only: first Let_def prod.case second) simp
next
  let ?k = "verification_key iu"
  assume a: "image_url ib = Some iu \<and> iu \<noteq> []
      \<and> (\<forall>v e. rows iw0 ?k = Some (v, e) \<longrightarrow> e < t_read ist1)
      \<and> ups ist1 = Up \<and> valid_time (t_write ist1 + 3600 * 1000)
      \<and> fst (verification_post ienv1 ist1 ib iw0) = Json 200 ir
      \<and> sel ist2 = Up \<and> t_read ist2 \<le> t_write ist1 + 3600 * 1000"
  then obtain tbl1 where
    g: "getFromCache (sel ist1) (del ist1) (t_read ist1) (rows iw0) ?k = Inr (JNull, tbl1)"
    using getFromCache_no_fresh[of "rows iw0" ?k "t_read ist1" "sel ist1" "del ist1"] by blast
  let ?w1 = "\<lparr> rows = tbl1(?k \<mapsto> (ir, t_write ist1 + 3600 * 1000)),
               calls = calls iw0 @ [VerifyImage iu] \<rparr>"
  have "snd (verification_post ienv1 ist1 ib iw0) = ?w1"
    using a g by (intro verification_post_first) auto
  with a have first: "verification_post ienv1 ist1 ib iw0 = (Json 200 ir, ?w1)"
    by (simp add: prod_eq_iff)
  have tr: "truthy ir"
    using a g by (auto simp add: verification_post_response falsy_def
                       split: lookup_result.splits option.splits store_cond.splits if_splits)
  have second: "verification_post ienv2 ist2 ib ?w1 = (Json 200 ir, ?w1)"
    using a tr by (intro verification_post_hit[where e = "t_write ist1 + 3600 * 1000"]) auto
  show "let (r1, w1) = verification_post ienv1 ist1 ib iw0;
             (r2, w2) = verification_post ienv2 ist2 ib w1
         in r2 = r1
            \<and> calls w1 = calls iw0 @ [VerifyImage iu]
            \<and> calls w2 = calls w1"
    by (simp only: first Let_def prod.case second) simp
qed


theorem cache_hit_skips_providers_witness:
  "geocoding_post no_keys_env (store_up 1000) manhattan_body
     \<lparr> rows = [geocoding_key (input_text manhattan_body) \<mapsto> (JStr ''cached'', 5000)], calls = [] \<rparr>
     = (Json 200 (JStr ''cached''),
        \<lparr> rows = [geocoding_key (input_text manhattan_body) \<mapsto> (JStr ''cached'', 5000)], calls = [] \<rparr>)
   \<and> verification_post (offline_verify_env (LookupError ''gone'')) (store_up 1000) photo_body
     \<lparr> rows = [verification_key ''http://example.org/flood.jpg'' \<mapsto> (JStr ''cached'', 5000)], calls = [] \<rparr>
     = (Json 200 (JStr ''cached''),
        \<lparr> rows = [verification_key ''http://example.org/flood.jpg'' \<mapsto> (JStr ''cached'', 5000)], calls = [] \<rparr>)
   \<and> fst (geocoding_post no_keys_env (store_up 2000) manhattan_body
            (snd (geocoding_post no_keys_env (store_up 1000) manhattan_body empty_world)))
       = fst (geocoding_post no_keys_env (store_up 1000) manhattan_body empty_world)
   \<and> calls (snd (geocoding_post no_keys_env (store_up 2000) manhattan_body
            (snd (geocoding_post no_keys_env (store_up 1000) manhattan_body empty_world))))
       = [ExtractLocation ''Flooding near Manhattan, NYC, need food'']
   \<and> fst (verification_post (offline_verify_env (LookupError ''gone'')) (store_up 2000) photo_body
            (snd (verification_post (offline_verify_env (LookupData (Some flood))) (store_up 1000)
                    photo_body empty_world)))
       = fst (verification_post (offline_verify_env (LookupData (Some flood))) (store_up 1000)
                    photo_body empty_world)
   \<and> calls (snd (verification_post (offline_verify_env (LookupError ''gone'')) (store_up 2000) photo_body
            (snd (verification_post (offline_verify_env (LookupData (Some flood))) (store_up 1000)
                    photo_body empty_world))))
       = [VerifyImage ''http://example.org/flood.jpg'']"
proof -
  let ?gw = "\<lparr> rows = [geocoding_key (input_text manhattan_body) \<mapsto> (JStr ''cached'', 5000)],
              calls = [] \<rparr>"
  let ?vw = "\<lparr> rows = [verification_key ''http://example.org/flood.jpg'' \<mapsto> (JStr ''cached'', 5000)],
              calls = [] \<rparr>"
  let ?e1 = "offline_verify_env (LookupData (Some flood))"
  let ?e2 = "offline_verify_env (LookupError ''gone'')"
  let ?r = "JVerification (mockImageVerification (1 / 2) 1000 ''http://example.org/flood.jpg'' flood)"
  have valid: "\<not> (falsy (body_text manhattan_body) \<and> falsy (body_description manhattan_body))"
    by (simp add: manhattan_body_def falsy_def)
  have inp: "input_text manhattan_body = ''Flooding near Manhattan, NYC, need food''"
    by (simp add: manhattan_body_def input_text_def falsy_def)
  have calls1: "snd (resolve_geocode no_keys_env (input_text manhattan_body))
                  = [ExtractLocation ''Flooding near Manhattan, NYC, need food'']"
    by (simp add: inp resolve_geocode_def extractLocationWithGemini_def no_keys_env_def)
  have url: "image_url photo_body = Some ''http://example.org/flood.jpg''"
    by (simp add: photo_body_def)
  have first: "fst (verification_post ?e1 (store_up 1000) photo_body empty_world) = Json 200 ?r"
    by (simp add: verification_post_response getFromCache_absent empty_world_def photo_body_def
                  falsy_def offline_verify_env_def resolve_verification_def
                  verifyImageWithGemini_def)
  show ?thesis
    using cache_hit_skips_providers
      [of manhattan_body "store_up 1000" ?gw "JStr ''cached''" 5000 no_keys_env
          photo_body "''http://example.org/flood.jpg''" "store_up 1000" ?vw "JStr ''cached''" 5000 ?e2
          manhattan_body empty_world "store_up 1000" "store_up 2000" no_keys_env no_keys_env
          photo_body "''http://example.org/flood.jpg''" empty_world "store_up 1000" ?e1 ?r
          "store_up 2000" ?e2]
      valid url first calls1
    by (simp add: store_up_def empty_world_def valid_time_def split_beta Let_def)
qed


subsection \<open>The fallback on a known text\<close>

lemma extract_manhattan:
  "extract_by_patterns ''Flooding near Manhattan, NYC, need food'' = ''Manhattan, NYC, need food''"
  by code_simp

lemma lookup_manhattan: "js_get mockCoordinates ''Manhattan, NYC, need food'' = Undefined"
  by code_simp

lemma lookup_new_york:
  "js_get mockCoordinates ''New York, NY'' = Own (407128 / 10000, - (740060 / 10000))"
  by (simp add: js_get_def mockCoordinates_def)

lemma includes_manhattan: "js_includes ''Manhattan, NYC, need food'' ''Manhattan''"
  by code_simp

lemma mock_manhattan:
  "mockLocationExtraction ''Flooding near Manhattan, NYC, need food'' =
     \<lparr> original_text = ''Flooding near Manhattan, NYC, need food'',
       extracted_location = ''Manhattan, NYC, need food'',
       coordinates = \<lparr> lat = Some (407128 / 10000), lng = Some (- (740060 / 10000)),
                       formatted_address = ''Manhattan, NYC, need food'',
                       service = ''mock'' \<rparr>,
       success = True,
       mock = True \<rparr>"
  by (simp add: mockLocationExtraction_def mock_lat_lng_def extract_manhattan lookup_manhattan Let_def)

lemma resolve_geocode_no_key:
  "\<not> gemini_api_key env \<Longrightarrow> fst (resolve_geocode env t) = mockLocationExtraction t"
  by (simp add: resolve_geocode_def extractLocationWithGemini_def)


text \<open>
  C6. With no Gemini key configured, a request whose text is
  \<^verbatim>\<open>Flooding near Manhattan, NYC, need food\<close> is always answered with status 200, and
  whenever the cache read misses, the body is the result of \<^verbatim>\<open>mockLocationExtraction\<close>:
  the third pattern captures \<^verbatim>\<open>Manhattan, NYC, need food\<close>, which contains
  \<^verbatim>\<open>Manhattan\<close> and has no entry in \<^verbatim>\<open>mockCoordinates\<close>, so the coordinates are those
  the table gives for \<^verbatim>\<open>New York, NY\<close>; the service is \<^verbatim>\<open>mock\<close>.
\<close>

theorem manhattan_text_resolves_by_fallback:
  assumes "\<not> gemini_api_key env"
      and "body_text body = Some ''Flooding near Manhattan, NYC, need food''"
  shows "(\<exists>v. fst (geocoding_post env st body w) = Json 200 v)
       \<and> (\<forall>c tbl1. getFromCache (sel st) (del st) (t_read st) (rows w)
                      (geocoding_key ''Flooding near Manhattan, NYC, need food'') = Inr (c, tbl1)
                    \<and> \<not> truthy c
             \<longrightarrow> fst (geocoding_post env st body w)
                   = Json 200 (JGeocode (mockLocationExtraction
                                           ''Flooding near Manhattan, NYC, need food'')))
       \<and> mockLocationExtraction ''Flooding near Manhattan, NYC, need food'' =
           \<lparr> original_text = ''Flooding near Manhattan, NYC, need food'',
             extracted_location = ''Manhattan, NYC, need food'',
             coordinates = \<lparr> lat = Some (407128 / 10000), lng = Some (- (740060 / 10000)),
                             formatted_address = ''Manhattan, NYC, need food'',
                             service = ''mock'' \<rparr>,
             success = True,
             mock = True \<rparr>
       \<and> js_includes ''Manhattan, NYC, need food'' ''Manhattan''
       \<and> js_get mockCoordinates ''Manhattan, NYC, need food'' = Undefined
       \<and> js_get mockCoordinates ''New York, NY'' = Own (407128 / 10000, - (740060 / 10000))"
proof -
  have valid: "\<not> (falsy (body_text body) \<and> falsy (body_description body))"
    using assms(2) by (simp add: falsy_def)
  have inp: "input_text body = ''Flooding near Manhattan, NYC, need food''"
    using assms(2) by (simp add: input_text_def falsy_def)
  obtain c0 tbl0 where g: "getFromCache (sel st) (del st) (t_read st) (rows w)
                   (geocoding_key ''Flooding near Manhattan, NYC, need food'') = Inr (c0, tbl0)"
    using getFromCache_total by (metis surj_pair)
  have resp: "fst (geocoding_post env st body w) =
           (if truthy c0 then Json 200 c0
            else Json 200 (JGeocode (mockLocationExtraction
                                      ''Flooding near Manhattan, NYC, need food'')))"
    using valid assms(1) by (simp add: geocoding_post_response inp g resolve_geocode_no_key)
  have "\<exists>v. fst (geocoding_post env st body w) = Json 200 v"
    unfolding resp by simp
  moreover have "\<forall>c tbl1. getFromCache (sel st) (del st) (t_read st) (rows w)
                      (geocoding_key ''Flooding near Manhattan, NYC, need food'') = Inr (c, tbl1)
                    \<and> \<not> truthy c
             \<longrightarrow> fst (geocoding_post env st body w)
                   = Json 200 (JGeocode (mockLocationExtraction
                                           ''Flooding near Manhattan, NYC, need food''))"
    unfolding resp g by simp
  ultimately show ?thesis
    using mock_manhattan includes_manhattan lookup_manhattan lookup_new_york by blast
qed

theorem manhattan_text_resolves_by_fallback_witness:
  "\<not> gemini_api_key no_keys_env
   \<and> body_text manhattan_body = Some ''Flooding near Manhattan, NYC, need food''
   \<and> fst (geocoding_post no_keys_env (store_up 1000) manhattan_body empty_world)
       = Json 200 (JGeocode
           \<lparr> original_text = ''Flooding near Manhattan, NYC, need food'',
             extracted_location = ''Manhattan, NYC, need food'',
             coordinates = \<lparr> lat = Some (407128 / 10000), lng = Some (- (740060 / 10000)),
                             formatted_address = ''Manhattan, NYC, need food'',
                             service = ''mock'' \<rparr>,
             success = True,
             mock = True \<rparr>)"
proof -
  have k: "\<not> gemini_api_key no_keys_env" by (simp add: no_keys_env_def)
  have b: "body_text manhattan_body = Some ''Flooding near Manhattan, NYC, need food''"
    by (simp add: manhattan_body_def)
  have m: "getFromCache (sel (store_up 1000)) (del (store_up 1000)) (t_read (store_up 1000))
             (rows empty_world) (geocoding_key ''Flooding near Manhattan, NYC, need food'')
           = Inr (JNull, rows empty_world)"
    by (rule getFromCache_absent) (simp add: empty_world_def)
  from manhattan_text_resolves_by_fallback[OF k b, of "store_up 1000" empty_world] m k b show ?thesis
    by (metis truthy.simps(1))
qed


section \<open>Properties of image verification\<close>

text \<open>
  C3, as stated, fails on the fallback path. \<^verbatim>\<open>mockImageVerification\<close> on a URL that
  contains \<^verbatim>\<open>fake\<close> gives the score 25, which is at most 40, with the status
  \<^verbatim>\<open>suspicious\<close>, not \<^verbatim>\<open>fake\<close>; on a plain URL with \<^verbatim>\<open>Math.random()\<close> = 0.5 it gives
  the score 80, which exceeds 70, with the status \<^verbatim>\<open>pending\<close>, not \<^verbatim>\<open>verified\<close>.
\<close>

theorem mock_status_ignores_thresholds:
  "authenticity_score (mockImageVerification (1 / 2) 1000 ''http://example.org/fake.jpg'' flood)
     = Some 25
   \<and> (25::rat) \<le> 40
   \<and> status (mockImageVerification (1 / 2) 1000 ''http://example.org/fake.jpg'' flood)
       = ''suspicious''
   \<and> ''suspicious'' \<noteq> ''fake''
   \<and> authenticity_score (mockImageVerification (1 / 2) 1000 ''http://example.org/flood.jpg'' flood)
       = Some 80
   \<and> (80::rat) > 70
   \<and> status (mockImageVerification (1 / 2) 1000 ''http://example.org/flood.jpg'' flood)
       = ''pending''
   \<and> ''pending'' \<noteq> ''verified''"
  by code_simp

text \<open>
  C3, amended. On the provider path (every result that \<^verbatim>\<open>verifyImageWithGemini\<close>
  returns) the status follows the score: \<^verbatim>\<open>verified\<close> above 70, \<^verbatim>\<open>suspicious\<close> above 40
  and up to 70, \<^verbatim>\<open>fake\<close> at 40 or below, and \<^verbatim>\<open>fake\<close> also when the parsed answer has no
  score. The fallback path has its own rule, the one of C10.
\<close>

theorem gemini_status_thresholds:
  assumes "verifyImageWithGemini env imageUrl d = Inr r"
  shows "status r = (case authenticity_score r of
                       None \<Rightarrow> ''fake''
                     | Some s \<Rightarrow> if s > 70 then ''verified''
                                 else if 40 < s \<and> s \<le> 70 then ''suspicious''
                                 else ''fake'')"
  using assms
  by (auto simp add: verifyImageWithGemini_def Let_def js_gt_def
           split: if_splits sum.splits option.splits)

theorem gemini_status_thresholds_witness:
  "verifyImageWithGemini (answering_verify_env 85) ''http://example.org/flood.jpg'' flood
     = Inr \<lparr> status = ''verified'', authenticity_score = Some 85,
             manipulation_detected = False, context_match = True,
             analysis_summary = ''looks real'', confidence_level = ''high'',
             verification_method = ''gemini_api'', timestamp = 1000 \<rparr>
   \<and> status \<lparr> status = ''verified'', authenticity_score = Some 85,
             manipulation_detected = False, context_match = True,
             analysis_summary = ''looks real'', confidence_level = ''high'',
             verification_method = ''gemini_api'', timestamp = 1000 \<rparr>
      = (if (85::rat) > 70 then ''verified''
         else if 40 < (85::rat) \<and> (85::rat) \<le> 70 then ''suspicious'' else ''fake'')"
proof -
  have h: "verifyImageWithGemini (answering_verify_env 85) ''http://example.org/flood.jpg'' flood
     = Inr \<lparr> status = ''verified'', authenticity_score = Some 85,
             manipulation_detected = False, context_match = True,
             analysis_summary = ''looks real'', confidence_level = ''high'',
             verification_method = ''gemini_api'', timestamp = 1000 \<rparr>"
    by (simp add: verifyImageWithGemini_def answering_verify_env_def js_gt_def)
  from gemini_status_thresholds[OF h] h show ?thesis by simp
qed

text \<open>
  C10. For every URL and disaster, and every value \<open>r\<close> of \<^verbatim>\<open>Math.random()\<close> (at least
  0, below 1), the result of \<^verbatim>\<open>mockImageVerification\<close> has \<^verbatim>\<open>context_match\<close> true and a
  status other than \<^verbatim>\<open>fake\<close>. If the URL, in lower case, contains one of the four markers,
  the status is \<^verbatim>\<open>suspicious\<close>, the score exactly 25 and \<^verbatim>\<open>manipulation_detected\<close> true;
  otherwise the score is a whole number from 60 to 99, \<^verbatim>\<open>manipulation_detected\<close> is
  false, and the status is \<^verbatim>\<open>verified\<close> when the score exceeds 80 and \<^verbatim>\<open>pending\<close>
  otherwise.
\<close>

theorem mock_verification_shape:
  assumes "0 \<le> r" and "r < 1"
  shows "context_match (mockImageVerification r t imageUrl d)
       \<and> status (mockImageVerification r t imageUrl d) \<noteq> ''fake''
       \<and> (if list_ex (\<lambda>marker. js_includes (toLowerCase imageUrl) marker)
                     [''fake'', ''staged'', ''stock'', ''shutterstock'']
          then status (mockImageVerification r t imageUrl d) = ''suspicious''
             \<and> authenticity_score (mockImageVerification r t imageUrl d) = Some 25
             \<and> manipulation_detected (mockImageVerification r t imageUrl d)
          else (\<exists>s. authenticity_score (mockImageVerification r t imageUrl d) = Some s
                   \<and> 60 \<le> s \<and> s \<le> 99 \<and> s \<in> \<int>
                   \<and> status (mockImageVerification r t imageUrl d)
                       = (if s > 80 then ''verified'' else ''pending''))
             \<and> \<not> manipulation_detected (mockImageVerification r t imageUrl d))"
proof -
  have "0 \<le> \<lfloor>r * 40\<rfloor>" using assms by simp
  moreover have "\<lfloor>r * 40\<rfloor> \<le> 39"
  proof -
    have "r * 40 < 40" using assms by simp
    then have "\<lfloor>r * 40\<rfloor> < 40" by (simp add: floor_less_iff)
    then show ?thesis by simp
  qed
  ultimately show ?thesis
    by (simp add: mockImageVerification_def Let_def)
qed

theorem mock_verification_shape_witness:
  "(0::rat) \<le> 1 / 2 \<and> (1 / 2 :: rat) < 1
   \<and> status (mockImageVerification (1 / 2) 1000 ''http://example.org/Stock/fake.jpg'' flood)
       = ''suspicious''
   \<and> authenticity_score (mockImageVerification (1 / 2) 1000 ''http://example.org/Stock/fake.jpg'' flood)
       = Some 25
   \<and> context_match (mockImageVerification (1 / 2) 1000 ''http://example.org/Stock/fake.jpg'' flood)"
proof -
  have c: "list_ex (\<lambda>marker. js_includes (toLowerCase ''http://example.org/Stock/fake.jpg'') marker)
                     [''fake'', ''staged'', ''stock'', ''shutterstock'']"
    by code_simp
  have h: "(0::rat) \<le> 1 / 2" "(1 / 2 :: rat) < 1" by simp_all
  from mock_verification_shape[OF h, of 1000 "''http://example.org/Stock/fake.jpg''" flood] c h show ?thesis
    by simp
qed

section \<open>Properties of the relevance score\<close>

lemma sum_list_all:
  "\<forall>x \<in> set xs. P x \<Longrightarrow> (\<Sum>x \<leftarrow> xs. if P x then (k::rat) else 0) = k * of_nat (length xs)"
  by (induction xs) (simp_all add: algebra_simps)

lemma sum_list_none:
  "\<forall>x \<in> set xs. \<not> P x \<Longrightarrow> (\<Sum>x \<leftarrow> xs. if P x then (k::rat) else 0) = 0"
  by (induction xs) simp_all

text \<open>
  C7. Take two posts with the same timestamp, scored at the same time for the same
  disaster: one with priority \<^verbatim>\<open>urgent\<close> whose text contains every tag and every keyword
  of the location name, one with priority \<^verbatim>\<open>low\<close> whose text contains none of them. Both
  scores are numbers and the first is strictly the higher, by 8 plus 5 for each tag and 3
  for each location keyword.
\<close>

theorem urgent_overlap_outscores_low:
  assumes "priority a = ''urgent''" and "priority b = ''low''"
      and "post_timestamp b = post_timestamp a"
      and "\<forall>tag \<in> set (tags d). js_includes (toLowerCase (post a)) (toLowerCase tag)"
      and "\<forall>keyword \<in> set (locationKeywords d). js_includes (toLowerCase (post a)) keyword"
      and "\<forall>tag \<in> set (tags d). \<not> js_includes (toLowerCase (post b)) (toLowerCase tag)"
      and "\<forall>keyword \<in> set (locationKeywords d). \<not> js_includes (toLowerCase (post b)) keyword"
  shows "\<exists>x y. calculateRelevanceScore t a d = Some x
             \<and> calculateRelevanceScore t b d = Some y
             \<and> y < x
             \<and> x - y = 8 + 5 * of_nat (length (tags d)) + 3 * of_nat (length (locationKeywords d))"
proof -
  have pa: "js_get priorityScores (priority a) = Own 10"
    by (simp add: assms(1) js_get_def priorityScores_def)
  have pb: "js_get priorityScores (priority b) = Own 2"
    by (simp add: assms(2) js_get_def priorityScores_def)
  show ?thesis
    using sum_list_all[OF assms(4), of 5] sum_list_all[OF assms(5), of 3]
          sum_list_none[OF assms(6), of 5] sum_list_none[OF assms(7), of 3]
    by (simp add: calculateRelevanceScore_def Let_def pa pb assms(3))
qed

theorem urgent_overlap_outscores_low_witness:
  "priority urgent_post = ''urgent'' \<and> priority low_post = ''low''
   \<and> post_timestamp low_post = post_timestamp urgent_post
   \<and> tags flood = [''flood''] \<and> locationKeywords flood = [''manhattan'', ''nyc'']
   \<and> js_includes (toLowerCase (post urgent_post)) ''flood''
   \<and> js_includes (toLowerCase (post urgent_post)) ''manhattan''
   \<and> js_includes (toLowerCase (post urgent_post)) ''nyc''
   \<and> \<not> js_includes (toLowerCase (post low_post)) ''flood''
   \<and> \<not> js_includes (toLowerCase (post low_post)) ''manhattan''
   \<and> \<not> js_includes (toLowerCase (post low_post)) ''nyc''
   \<and> (\<exists>x y. calculateRelevanceScore 1800000 urgent_post flood = Some x
             \<and> calculateRelevanceScore 1800000 low_post flood = Some y
             \<and> y < x)"
proof -
  have h1: "priority urgent_post = ''urgent''" by (simp add: urgent_post_def)
  have h2: "priority low_post = ''low''" by (simp add: low_post_def)
  have h3: "post_timestamp low_post = post_timestamp urgent_post"
    by (simp add: urgent_post_def low_post_def)
  have h4: "\<forall>tag \<in> set (tags flood). js_includes (toLowerCase (post urgent_post)) (toLowerCase tag)"
    by code_simp
  have h5: "\<forall>keyword \<in> set (locationKeywords flood). js_includes (toLowerCase (post urgent_post)) keyword"
    by code_simp
  have h6: "\<forall>tag \<in> set (tags flood). \<not> js_includes (toLowerCase (post low_post)) (toLowerCase tag)"
    by code_simp
  have h7: "\<forall>keyword \<in> set (locationKeywords flood). \<not> js_includes (toLowerCase (post low_post)) keyword"
    by code_simp
  have e: "tags flood = [''flood'']" "locationKeywords flood = [''manhattan'', ''nyc'']"
      "js_includes (toLowerCase (post urgent_post)) ''flood''"
      "js_includes (toLowerCase (post urgent_post)) ''manhattan''"
      "js_includes (toLowerCase (post urgent_post)) ''nyc''"
      "\<not> js_includes (toLowerCase (post low_post)) ''flood''"
      "\<not> js_includes (toLowerCase (post low_post)) ''manhattan''"
      "\<not> js_includes (toLowerCase (post low_post)) ''nyc''"
    by code_simp+
  from urgent_overlap_outscores_low[OF h1 h2 h3 h4 h5 h6 h7, of 1800000] h1 h2 h3 e show ?thesis
    by blast
qed

section \<open>Properties of the socket handlers\<close>

lemma io_emit_recipients:
  "set (io_emit srv event data) = {(socket_id s, event, data) | s. s \<in> set srv}"
  by (auto simp add: io_emit_def)











section \<open>Rejected requests\<close>

text \<open>
  C8, as stated, fails. A geocoding request whose \<^verbatim>\<open>text\<close> is the number 123 is not
  empty, and is rejected: \<^verbatim>\<open>Buffer.from\<close> throws and the outer \<^verbatim>\<open>catch\<close> answers 500.
  One whose \<^verbatim>\<open>text\<close> is an array passes the cache read, the provider fails for want of a
  key, the fallback throws on the array, and the answer is 500: a provider failure that
  ends in an error response. A verification request with an image URL, for a disaster the
  table does not hold, is rejected with 500 after the cache read.
\<close>

theorem nonempty_requests_are_rejected:
  "truthy_field (Some (JsonNumber 123))
   \<and> geocoding_request node0 no_keys_env (store_up 1000) Map.empty (Some (JsonNumber 123)) None
       = (Rejected 500 ''The first argument must be of type string'', [])
   \<and> truthy_field (Some (JsonArray [JsonString ''x'']))
   \<and> geocoding_request node0 no_keys_env (store_up 1000) Map.empty
         (Some (JsonArray [JsonString ''x''])) None
       = (Rejected 500 ''text.match is not a function'', [CacheGet ''geocoding_AA=='', ExtractCall])
   \<and> truthy_field (Some (JsonString ''http://example.org/flood.jpg''))
   \<and> verification_request node0 (offline_verify_env (LookupData (Some flood))) no_such_disaster
         (store_up 1000) Map.empty (Some (JsonString ''http://example.org/flood.jpg'')) None
       = (Rejected 500 ''JSON object requested, multiple (or no) rows returned'',
          [CacheGet (verification_key ''http://example.org/flood.jpg''), DisasterSelect])"
  by (simp add: truthy_field_def geocoding_request_def verification_request_def input_field_def
                buffer_base64_def node0_def message_def getFromCache_absent store_up_def
                extractLocationWithGemini_def no_keys_env_def geocoding_fallback_def
                select_disaster_def no_such_disaster_def verification_key_def)

lemma geocoding_request_string:
  assumes "input_field tf df = Some (JsonString s)" and "s \<noteq> []"
  shows "\<exists>v cs. geocoding_request nd env st tbl tf df = (Sent v, CacheGet (geocoding_key s) # cs)"
proof -
  have v: "\<not> (\<not> truthy_field tf \<and> \<not> truthy_field df)"
    using assms by (auto simp add: input_field_def truthy_field_def split: if_splits)
  obtain c t1 where g: "getFromCache (sel st) (del st) (t_read st) tbl (''geocoding_'' @ base64 s) = Inr (c, t1)"
    using getFromCache_total by (metis surj_pair)
  show ?thesis
    using v assms(1) g
    by (simp add: geocoding_request_def buffer_base64_def geocoding_key_def geocoding_fallback_def
                  Let_def split: sum.splits)
qed


lemma truthy_field_string [simp]: "truthy_field (Some (JsonString s)) = (s \<noteq> [])"
  by (simp add: truthy_field_def)

lemma truthy_field_map_string: "truthy_field (map_option JsonString a) = (\<not> falsy a)"
  by (cases a) (simp_all add: truthy_field_def falsy_def)

lemma geocoding_request_fallback:
  assumes "input_field tf df = Some (JsonString s)" and "s \<noteq> []"
      and "getFromCache (sel st) (del st) (t_read st) tbl (geocoding_key s) = Inr (c, t1)"
      and "\<not> truthy c"
      and "extractLocationWithGemini env s = Inl e
           \<or> (\<exists>n e'. extractLocationWithGemini env s = Inr n \<and> geocodeLocation env n = Inl e')"
  shows "fst (geocoding_request nd env st tbl tf df) = Sent (JGeocode (mockLocationExtraction s))"
proof -
  have v: "\<not> (\<not> truthy_field tf \<and> \<not> truthy_field df)"
    using assms by (auto simp add: input_field_def truthy_field_def split: if_splits)
  show ?thesis
    using v assms
    by (auto simp add: geocoding_request_def buffer_base64_def geocoding_key_def
                       geocoding_fallback_def prompt_text_def Let_def)
qed

lemma geocoding_request_replies:
  "(\<exists>v. fst (geocoding_request nd env st tbl tf df) = Sent v)
   \<or> (\<exists>v n c. fst (geocoding_request nd env st tbl tf df) = SentGeocode v n c)
   \<or> fst (geocoding_request nd env st tbl tf df) = Rejected 400 ''Text or description is required''
   \<or> (\<exists>m. fst (geocoding_request nd env st tbl tf df) = Rejected 500 m)"
  by (simp add: geocoding_request_def geocoding_fallback_def Let_def
           split: sum.splits prod.splits json.splits)

lemma geocoding_request_not_string:
  assumes "input_field tf df = Some v" and "truthy_json v"
      and "v = JsonNumber n \<or> v = JsonBool b"
  shows "geocoding_request nd env st tbl tf df = (Rejected 500 (buffer_message nd v), [])"
proof -
  have v: "\<not> (\<not> truthy_field tf \<and> \<not> truthy_field df)"
    using assms by (auto simp add: input_field_def truthy_field_def split: if_splits)
  show ?thesis
    using v assms by (auto simp add: geocoding_request_def buffer_base64_def message_def)
qed

lemma verification_request_not_string:
  assumes "truthy_json v" and "v = JsonNumber n \<or> v = JsonBool b"
  shows "verification_request nd env db st tbl (Some v) report
           = (Rejected 500 (buffer_message nd v), [])"
  using assms
  by (auto simp add: verification_request_def buffer_base64_def message_def truthy_field_def)

lemma verification_request_never_404:
  "fst (verification_request nd env db st tbl url report) \<noteq> Rejected 404 m"
  by (auto simp add: verification_request_def verification_finish_def select_disaster_def Let_def
           split: sum.splits prod.splits option.splits store_cond.splits json.splits)

lemma verification_request_string:
  assumes "u \<noteq> []"
  shows "(\<exists>v cs. verification_request nd env db st tbl (Some (JsonString u)) report
                 = (Sent v, CacheGet (verification_key u) # cs))
       \<or> (\<exists>m cs. verification_request nd env db st tbl (Some (JsonString u)) report
                 = (Rejected 500 m, CacheGet (verification_key u) # cs)
               \<and> (db_cond db \<noteq> Up \<or> db_row db = None
                   \<or> (truthy_field report \<and> report_update env = Unreachable m)))"
proof -
  obtain c t1 where g: "getFromCache (sel st) (del st) (t_read st) tbl
                          (''image_verification_'' @ base64 u) = Inr (c, t1)"
    using getFromCache_total by (metis surj_pair)
  show ?thesis
    using assms g
    by (auto simp add: verification_request_def verification_finish_def select_disaster_def
                       buffer_base64_def verification_key_def Let_def
             split: sum.splits option.splits store_cond.splits)
qed

lemma verification_request_found:
  assumes "u \<noteq> []" and "db_cond db = Up" and "db_row db = Some d"
      and "\<not> truthy_field report \<or> (\<forall>m. report_update env \<noteq> Unreachable m)"
  shows "\<exists>v. fst (verification_request nd env db st tbl (Some (JsonString u)) report) = Sent v"
proof -
  obtain c t1 where g: "getFromCache (sel st) (del st) (t_read st) tbl
                          (''image_verification_'' @ base64 u) = Inr (c, t1)"
    using getFromCache_total by (metis surj_pair)
  show ?thesis
    using assms g
    by (auto simp add: verification_request_def verification_finish_def select_disaster_def
                       buffer_base64_def Let_def
             split: sum.splits option.splits store_cond.splits)
qed

text \<open>The routes on fields that are absent or strings are the typed routes of the
  earlier sections.\<close>

lemma geocoding_request_typed:
  "fst (geocoding_request nd env st tbl (map_option JsonString a) (map_option JsonString b))
     = reply_of (fst (geocoding_post env st \<lparr> body_text = a, body_description = b \<rparr>
                        \<lparr> rows = tbl, calls = cs \<rparr>))"
proof (cases "falsy a \<and> falsy b")
  case True
  then show ?thesis
    by (simp add: geocoding_request_def geocoding_post_def truthy_field_map_string reply_of_def)
next
  case False
  define s where "s = input_text \<lparr> body_text = a, body_description = b \<rparr>"
  have i: "input_field (map_option JsonString a) (map_option JsonString b) = Some (JsonString s)"
    using False
    by (auto simp add: s_def input_field_def input_text_def truthy_field_map_string falsy_def)
  obtain c t1 where g: "getFromCache (sel st) (del st) (t_read st) tbl (geocoding_key s) = Inr (c, t1)"
    using getFromCache_total by (metis surj_pair)
  show ?thesis
    using False i g
    by (auto simp add: geocoding_request_def geocoding_post_response truthy_field_map_string
                       reply_of_def buffer_base64_def geocoding_key_def s_def[symmetric]
                       geocoding_fallback_def resolve_geocode_def prompt_text_def Let_def
             split: sum.splits)
qed

lemma message_JsError [simp]: "message (JsError m) = m"
  by (simp add: message_def)

lemma verifyImageWithGemini_lookup [simp]:
  "verifyImageWithGemini (env\<lparr>disaster_lookup := l\<rparr>) u d = verifyImageWithGemini env u d"
  by (simp add: verifyImageWithGemini_def Let_def split: sum.splits option.splits)

lemma verification_request_typed:
  "fst (verification_request nd env db st tbl (map_option JsonString a) (map_option JsonString r))
     = reply_of (fst (verification_post (env\<lparr>disaster_lookup := lookup_of db\<rparr>) st
                        \<lparr> image_url = a, report_id = r \<rparr> \<lparr> rows = tbl, calls = cs \<rparr>))"
proof (cases "falsy a")
  case True
  then show ?thesis
    by (simp add: verification_request_def verification_post_def truthy_field_map_string reply_of_def)
next
  case False
  then obtain u where u: "a = Some u" "u \<noteq> []" by (auto simp add: falsy_def)
  obtain c t1 where g: "getFromCache (sel st) (del st) (t_read st) tbl (verification_key u) = Inr (c, t1)"
    using getFromCache_total by (metis surj_pair)
  show ?thesis
    using False u g
    by (auto simp add: verification_request_def verification_post_response truthy_field_map_string
                       reply_of_def buffer_base64_def verification_key_def
                       verification_finish_def resolve_verification_def prompt_text_def Let_def
                       select_disaster_def lookup_of_def
             split: sum.splits store_cond.splits option.splits)
qed


lemma verification_request_fallback:
  assumes "u \<noteq> []"
      and "getFromCache (sel st) (del st) (t_read st) tbl (verification_key u) = Inr (c, t1)"
      and "\<not> truthy c"
      and "db_cond db = Up" and "db_row db = Some d"
      and "verifyImageWithGemini env u d = Inl e"
      and "\<not> truthy_field report \<or> (\<forall>m. report_update env \<noteq> Unreachable m)"
  shows "fst (verification_request nd env db st tbl (Some (JsonString u)) report)
           = Sent (JVerification (mockImageVerification (random env) (now env) u d))"
  using assms
  by (auto simp add: verification_request_def verification_finish_def select_disaster_def
                     buffer_base64_def verification_key_def prompt_text_def Let_def
           split: store_cond.splits)

lemma geocoding_request_composite:
  assumes "input_field tf df = Some x"
      and "(\<exists>xs. x = JsonArray xs) \<or> (\<exists>kvs. x = JsonObject kvs)"
      and "buffer_composite nd x = Inr k"
      and "getFromCache (sel st) (del st) (t_read st) tbl (''geocoding_'' @ k) = Inr (c, t1)"
      and "\<not> truthy c"
      and "extractLocationWithGemini env (to_string nd x) = Inl e"
  shows "geocoding_request nd env st tbl tf df
           = (Rejected 500 ''text.match is not a function'',
              [CacheGet (''geocoding_'' @ k), ExtractCall])"
proof -
  have v: "\<not> (\<not> truthy_field tf \<and> \<not> truthy_field df)"
    using assms(1,2) by (auto simp add: input_field_def truthy_field_def split: if_splits)
  show ?thesis
    using v assms
    by (auto simp add: geocoding_request_def buffer_base64_def geocoding_fallback_def
                       prompt_text_def Let_def)
qed

lemma extract_no_keys:
  "extractLocationWithGemini no_keys_env t = Inl (JsError ''Gemini API key not configured'')"
  by (simp add: extractLocationWithGemini_def no_keys_env_def)

lemma verify_offline:
  "verifyImageWithGemini (offline_verify_env l) u d = Inl (JsError ''Gemini API key not configured'')"
  by (simp add: verifyImageWithGemini_def offline_verify_env_def)

text \<open>
  C8, amended. A request whose payload field is absent or falsy (no text and no
  description for geocoding, no image URL for verification) is rejected with status 400
  and a reason, before any call to the cache, the database or a provider. When the payload
  is a non-empty string, the cache is read first, and a provider function that throws never
  gives an error response: the fallback's result is sent. Such a geocoding request is
  always answered with a result. Such a verification request is answered with a result
  unless the disaster lookup fails or the report update throws, which give status 500; an
  unknown disaster is a failed lookup, since \<^verbatim>\<open>single()\<close> reports an error when no row
  matches, and the route never answers 404. A truthy payload that is no string passes the
  emptiness test: on a number or a boolean \<^verbatim>\<open>Buffer.from\<close> throws and the route answers
  500 before any call; in the geocoding route, on an array or an object that
  \<^verbatim>\<open>Buffer.from\<close> accepts, a failing provider after a cache miss ends in status 500, the
  fallback throwing on the value. The geocoding route sends a result or rejects with 400 or
  500, nothing else.
\<close>

theorem rejections_of_the_routes:
  "(\<not> truthy_field tf \<and> \<not> truthy_field df \<longrightarrow>
      geocoding_request nd genv st tbl tf df
        = (Rejected 400 ''Text or description is required'', []))
   \<and> (\<not> truthy_field url \<longrightarrow>
      verification_request nd venv db st tbl url report
        = (Rejected 400 ''Image URL is required'', []))
   \<and> (input_field tf df = Some (JsonString s) \<and> s \<noteq> [] \<longrightarrow>
      (\<exists>v cs. geocoding_request nd genv st tbl tf df
                 = (Sent v, CacheGet (geocoding_key s) # cs)))
   \<and> (input_field tf df = Some (JsonString s) \<and> s \<noteq> []
       \<and> getFromCache (sel st) (del st) (t_read st) tbl (geocoding_key s) = Inr (c, t1)
       \<and> \<not> truthy c
       \<and> (extractLocationWithGemini genv s = Inl e
           \<or> (\<exists>n e'. extractLocationWithGemini genv s = Inr n \<and> geocodeLocation genv n = Inl e')) \<longrightarrow>
      fst (geocoding_request nd genv st tbl tf df) = Sent (JGeocode (mockLocationExtraction s)))
   \<and> (u \<noteq> [] \<longrightarrow>
      (\<exists>v cs. verification_request nd venv db st tbl (Some (JsonString u)) report
                 = (Sent v, CacheGet (verification_key u) # cs))
      \<or> (\<exists>m cs. verification_request nd venv db st tbl (Some (JsonString u)) report
                 = (Rejected 500 m, CacheGet (verification_key u) # cs)
               \<and> (db_cond db \<noteq> Up \<or> db_row db = None
                   \<or> (truthy_field report \<and> report_update venv = Unreachable m))))
   \<and> (u \<noteq> [] \<and> db_cond db = Up \<and> db_row db = Some d
       \<and> (\<not> truthy_field report \<or> (\<forall>m. report_update venv \<noteq> Unreachable m)) \<longrightarrow>
      (\<exists>v. fst (verification_request nd venv db st tbl (Some (JsonString u)) report) = Sent v))
   \<and> (u \<noteq> []
       \<and> getFromCache (sel st) (del st) (t_read st) tbl (verification_key u) = Inr (c, t1)
       \<and> \<not> truthy c
       \<and> db_cond db = Up \<and> db_row db = Some d
       \<and> verifyImageWithGemini venv u d = Inl e
       \<and> (\<not> truthy_field report \<or> (\<forall>m. report_update venv \<noteq> Unreachable m)) \<longrightarrow>
      fst (verification_request nd venv db st tbl (Some (JsonString u)) report)
        = Sent (JVerification (mockImageVerification (random venv) (now venv) u d)))
   \<and> fst (verification_request nd venv db st tbl url report) \<noteq> Rejected 404 m404
   \<and> (input_field tf df = Some x \<and> truthy_json x \<and> (x = JsonNumber n \<or> x = JsonBool b) \<longrightarrow>
      geocoding_request nd genv st tbl tf df = (Rejected 500 (buffer_message nd x), []))
   \<and> (truthy_json x \<and> (x = JsonNumber n \<or> x = JsonBool b) \<longrightarrow>
      verification_request nd venv db st tbl (Some x) report
        = (Rejected 500 (buffer_message nd x), []))
   \<and> (input_field tf df = Some x
       \<and> ((\<exists>xs. x = JsonArray xs) \<or> (\<exists>kvs. x = JsonObject kvs))
       \<and> buffer_composite nd x = Inr k
       \<and> getFromCache (sel st) (del st) (t_read st) tbl (''geocoding_'' @ k) = Inr (c, t1)
       \<and> \<not> truthy c
       \<and> extractLocationWithGemini genv (to_string nd x) = Inl e \<longrightarrow>
      geocoding_request nd genv st tbl tf df
        = (Rejected 500 ''text.match is not a function'',
           [CacheGet (''geocoding_'' @ k), ExtractCall]))
   \<and> ((\<exists>v. fst (geocoding_request nd genv st tbl tf df) = Sent v)
      \<or> (\<exists>v n c. fst (geocoding_request nd genv st tbl tf df) = SentGeocode v n c)
      \<or> fst (geocoding_request nd genv st tbl tf df)
           = Rejected 400 ''Text or description is required''
      \<or> (\<exists>m. fst (geocoding_request nd genv st tbl tf df) = Rejected 500 m))"
proof (intro conjI impI)
  show "input_field tf df = Some x
       \<and> ((\<exists>xs. x = JsonArray xs) \<or> (\<exists>kvs. x = JsonObject kvs))
       \<and> buffer_composite nd x = Inr k
       \<and> getFromCache (sel st) (del st) (t_read st) tbl (''geocoding_'' @ k) = Inr (c, t1)
       \<and> \<not> truthy c
       \<and> extractLocationWithGemini genv (to_string nd x) = Inl e \<Longrightarrow>
      geocoding_request nd genv st tbl tf df
        = (Rejected 500 ''text.match is not a function'',
           [CacheGet (''geocoding_'' @ k), ExtractCall])"
    using geocoding_request_composite[of tf df x nd k st tbl c t1 genv e] by blast
  show "\<not> truthy_field tf \<and> \<not> truthy_field df \<Longrightarrow>
      geocoding_request nd genv st tbl tf df
        = (Rejected 400 ''Text or description is required'', [])"
    by (simp add: geocoding_request_def)
  show "\<not> truthy_field url \<Longrightarrow>
      verification_request nd venv db st tbl url report
        = (Rejected 400 ''Image URL is required'', [])"
    by (simp add: verification_request_def)
  show "input_field tf df = Some (JsonString s) \<and> s \<noteq> [] \<Longrightarrow>
      (\<exists>v cs. geocoding_request nd genv st tbl tf df
                 = (Sent v, CacheGet (geocoding_key s) # cs))"
    by (simp add: geocoding_request_string)
  show "input_field tf df = Some (JsonString s) \<and> s \<noteq> []
       \<and> getFromCache (sel st) (del st) (t_read st) tbl (geocoding_key s) = Inr (c, t1)
       \<and> \<not> truthy c
       \<and> (extractLocationWithGemini genv s = Inl e
           \<or> (\<exists>n e'. extractLocationWithGemini genv s = Inr n \<and> geocodeLocation genv n = Inl e')) \<Longrightarrow>
      fst (geocoding_request nd genv st tbl tf df) = Sent (JGeocode (mockLocationExtraction s))"
    using geocoding_request_fallback[of tf df s st tbl c t1 genv e nd] by blast
  show "u \<noteq> [] \<Longrightarrow>
      (\<exists>v cs. verification_request nd venv db st tbl (Some (JsonString u)) report
                 = (Sent v, CacheGet (verification_key u) # cs))
      \<or> (\<exists>m cs. verification_request nd venv db st tbl (Some (JsonString u)) report
                 = (Rejected 500 m, CacheGet (verification_key u) # cs)
               \<and> (db_cond db \<noteq> Up \<or> db_row db = None
                   \<or> (truthy_field report \<and> report_update venv = Unreachable m)))"
    by (rule verification_request_string)
  show "u \<noteq> [] \<and> db_cond db = Up \<and> db_row db = Some d
       \<and> (\<not> truthy_field report \<or> (\<forall>m. report_update venv \<noteq> Unreachable m)) \<Longrightarrow>
      (\<exists>v. fst (verification_request nd venv db st tbl (Some (JsonString u)) report) = Sent v)"
    using verification_request_found[of u db d report venv nd st tbl] by blast
  show "u \<noteq> []
       \<and> getFromCache (sel st) (del st) (t_read st) tbl (verification_key u) = Inr (c, t1)
       \<and> \<not> truthy c
       \<and> db_cond db = Up \<and> db_row db = Some d
       \<and> verifyImageWithGemini venv u d = Inl e
       \<and> (\<not> truthy_field report \<or> (\<forall>m. report_update venv \<noteq> Unreachable m)) \<Longrightarrow>
      fst (verification_request nd venv db st tbl (Some (JsonString u)) report)
        = Sent (JVerification (mockImageVerification (random venv) (now venv) u d))"
    using verification_request_fallback[of u st tbl c t1 db d venv e report nd] by blast
  show "fst (verification_request nd venv db st tbl url report) \<noteq> Rejected 404 m404"
    by (rule verification_request_never_404)
  show "input_field tf df = Some x \<and> truthy_json x \<and> (x = JsonNumber n \<or> x = JsonBool b) \<Longrightarrow>
      geocoding_request nd genv st tbl tf df = (Rejected 500 (buffer_message nd x), [])"
    using geocoding_request_not_string[of tf df x n b nd genv st tbl] by blast
  show "truthy_json x \<and> (x = JsonNumber n \<or> x = JsonBool b) \<Longrightarrow>
      verification_request nd venv db st tbl (Some x) report
        = (Rejected 500 (buffer_message nd x), [])"
    using verification_request_not_string[of x n b nd venv db st tbl report] by blast
  show "(\<exists>v. fst (geocoding_request nd genv st tbl tf df) = Sent v)
      \<or> (\<exists>v n c. fst (geocoding_request nd genv st tbl tf df) = SentGeocode v n c)
      \<or> fst (geocoding_request nd genv st tbl tf df)
           = Rejected 400 ''Text or description is required''
      \<or> (\<exists>m. fst (geocoding_request nd genv st tbl tf df) = Rejected 500 m)"
    by (rule geocoding_request_replies)
qed

theorem rejections_of_the_routes_witness:
  "geocoding_request node0 no_keys_env (store_up 1000) Map.empty None (Some (JsonString []))
     = (Rejected 400 ''Text or description is required'', [])
   \<and> verification_request node0 (offline_verify_env (LookupData (Some flood))) flood_row
        (store_up 1000) Map.empty (Some JsonNull) None
     = (Rejected 400 ''Image URL is required'', [])
   \<and> fst (geocoding_request node0 no_keys_env (store_up 1000) Map.empty
            (Some (JsonString ''fire at the docks'')) None)
     = Sent (JGeocode (mockLocationExtraction ''fire at the docks''))
   \<and> fst (verification_request node0 (offline_verify_env (LookupData (Some flood))) flood_row
            (store_up 1000) Map.empty (Some (JsonString ''http://example.org/flood.jpg'')) None)
     = Sent (JVerification (mockImageVerification (1 / 2) 1000 ''http://example.org/flood.jpg'' flood))
   \<and> geocoding_request node0 no_keys_env (store_up 1000) Map.empty (Some (JsonNumber 123)) None
     = (Rejected 500 (buffer_message node0 (JsonNumber 123)), [])
   \<and> verification_request node0 (offline_verify_env (LookupData (Some flood))) flood_row
        (store_up 1000) Map.empty (Some (JsonBool True)) None
     = (Rejected 500 (buffer_message node0 (JsonBool True)), [])
   \<and> geocoding_request node0 no_keys_env (store_up 1000) Map.empty
        (Some (JsonArray [JsonString ''x''])) None
     = (Rejected 500 ''text.match is not a function'', [CacheGet ''geocoding_AA=='', ExtractCall])"
proof -
  let ?venv = "offline_verify_env (LookupData (Some flood))"
  have f1: "\<not> truthy_field None" "\<not> truthy_field (Some (JsonString []))"
           "\<not> truthy_field (Some JsonNull)"
    by (simp_all add: truthy_field_def)
  have i1: "input_field (Some (JsonString ''fire at the docks'')) None
              = Some (JsonString ''fire at the docks'')"
       "input_field (Some (JsonNumber 123)) None = Some (JsonNumber 123)"
    by (simp_all add: input_field_def truthy_field_def)
  have g: "getFromCache (sel (store_up 1000)) (del (store_up 1000)) (t_read (store_up 1000))
             Map.empty k = Inr (JNull, Map.empty)" for k
    by (rule getFromCache_absent) simp
  have d: "db_cond flood_row = Up" "db_row flood_row = Some flood"
    by (simp_all add: flood_row_def)
  have r: "random ?venv = 1 / 2" "now ?venv = 1000"
    by (simp_all add: offline_verify_env_def)
  note t = rejections_of_the_routes[of None "Some (JsonString [])" node0 no_keys_env "store_up 1000" Map.empty
               "Some JsonNull" ?venv flood_row None]
  have a: "geocoding_request node0 no_keys_env (store_up 1000) Map.empty None (Some (JsonString []))
     = (Rejected 400 ''Text or description is required'', [])"
    using t f1 by blast
  have b: "verification_request node0 ?venv flood_row (store_up 1000) Map.empty (Some JsonNull) None
     = (Rejected 400 ''Image URL is required'', [])"
    using t f1 by blast
  have c: "fst (geocoding_request node0 no_keys_env (store_up 1000) Map.empty
            (Some (JsonString ''fire at the docks'')) None)
     = Sent (JGeocode (mockLocationExtraction ''fire at the docks''))"
    using rejections_of_the_routes[of "Some (JsonString ''fire at the docks'')" None node0 no_keys_env "store_up 1000"
                Map.empty None ?venv flood_row None "''fire at the docks''" JNull Map.empty
                "JsError ''Gemini API key not configured''"]
          i1 g extract_no_keys
    by simp
  have e: "fst (verification_request node0 ?venv flood_row (store_up 1000) Map.empty
                  (Some (JsonString ''http://example.org/flood.jpg'')) None)
     = Sent (JVerification (mockImageVerification (1 / 2) 1000 ''http://example.org/flood.jpg'' flood))"
    using rejections_of_the_routes[of None None node0 no_keys_env "store_up 1000" Map.empty None ?venv flood_row None
                "''x''" JNull Map.empty "JsError ''Gemini API key not configured''"
                "''http://example.org/flood.jpg''" flood]
          g d r f1 verify_offline
    by simp
  have n: "geocoding_request node0 no_keys_env (store_up 1000) Map.empty (Some (JsonNumber 123)) None
     = (Rejected 500 (buffer_message node0 (JsonNumber 123)), [])"
    using rejections_of_the_routes[of "Some (JsonNumber 123)" None node0 no_keys_env "store_up 1000" Map.empty None
                ?venv flood_row None "''x''" JNull Map.empty "JsError ''x''" "''u''" flood "''m''"
                "JsonNumber 123" 123 True]
          i1
    by simp
  have m: "verification_request node0 ?venv flood_row (store_up 1000) Map.empty (Some (JsonBool True)) None
     = (Rejected 500 (buffer_message node0 (JsonBool True)), [])"
    using rejections_of_the_routes[of None None node0 no_keys_env "store_up 1000" Map.empty None
                ?venv flood_row None "''x''" JNull Map.empty "JsError ''x''" "''u''" flood "''m''"
                "JsonBool True" 0 True]
    by simp
  have i2: "input_field (Some (JsonArray [JsonString ''x''])) None
              = Some (JsonArray [JsonString ''x''])"
       "buffer_composite node0 (JsonArray [JsonString ''x'']) = Inr ''AA==''"
    by (simp_all add: input_field_def truthy_field_def node0_def)
  have y: "geocoding_request node0 no_keys_env (store_up 1000) Map.empty
        (Some (JsonArray [JsonString ''x''])) None
     = (Rejected 500 ''text.match is not a function'', [CacheGet ''geocoding_AA=='', ExtractCall])"
    using rejections_of_the_routes[of "Some (JsonArray [JsonString ''x''])" None node0 no_keys_env "store_up 1000"
                Map.empty None ?venv flood_row None "''x''" JNull Map.empty
                "JsError ''Gemini API key not configured''" "''u''" flood "''m''"
                "JsonArray [JsonString ''x'']" 0 True "''AA==''"]
          i2 g extract_no_keys
    by simp
  from a b c e n m y show ?thesis by blast
qed


section \<open>Properties of the authentication middleware\<close>

lemma authenticate_never_answers: "\<exists>u. authenticate h = Next u"
  by (simp add: authenticate_def Let_def)

lemma mockUsers_citizen1:
  "js_get mockUsers ''citizen1'' = Own \<lparr> user_id = ''citizen1'', user_role = ''contributor'',
                     user_name = ''Citizen Reporter'' \<rparr>"
  by (simp add: js_get_def mockUsers_def)

lemma authenticate_default:
  "falsy h \<or> (h = Some x \<and> js_get mockUsers (replace_first ''Bearer '' [] x) = Undefined) \<Longrightarrow>
   authenticate h = Next (Own \<lparr> user_id = ''citizen1'', user_role = ''contributor'',
                     user_name = ''Citizen Reporter'' \<rparr>)"
  by (auto simp add: authenticate_def Let_def mockUsers_citizen1)

text \<open>
  C9. The middleware always calls \<^verbatim>\<open>next()\<close> (\<open>authenticate_never_answers\<close>), and a
  missing header or a token that names no property of \<^verbatim>\<open>mockUsers\<close> gives the user
  \<^verbatim>\<open>citizen1\<close> (\<open>authenticate_default\<close>). But the token \<^verbatim>\<open>constructor\<close>, which is no
  user, names a property that \<^verbatim>\<open>mockUsers\<close> inherits: \<^verbatim>\<open>req.user\<close> becomes that inherited
  value, not \<^verbatim>\<open>citizen1\<close>.
\<close>

theorem authenticate_inherited_token:
  "authenticate (Some ''Bearer constructor'') = Next (Inherited ''constructor'')
   \<and> authenticate (Some ''Bearer nobody'')
       = Next (Own \<lparr> user_id = ''citizen1'', user_role = ''contributor'',
                     user_name = ''Citizen Reporter'' \<rparr>)
   \<and> authenticate None
       = Next (Own \<lparr> user_id = ''citizen1'', user_role = ''contributor'',
                     user_name = ''Citizen Reporter'' \<rparr>)"
  by code_simp


end
